theory Spec2Isabelle
  imports Main
begin

text \<open>
  A shallow embedding of the Symbol node monitoring script (Google Apps Script). The
  functions follow \<open>src/unnamed/part_000\<close>; where the snapshot \<open>src/Code.js\<close> differs
  (\<open>checkBlockDelay\<close>, \<open>sendNotification\<close>, \<open>sendRecoveryNotification\<close>) its variant carries
  the suffix \<open>_Code\<close>. The sheet
  is a grid of cells addressed by row and column, and every function that writes to it
  takes the world and returns the new one.
\<close>

section \<open>Values held by spreadsheet cells and script variables\<close>

text \<open>
  \<open>getValue\<close> of a sheet cell yields a string, a number, a Date or a boolean; a blank
  cell yields the empty string, and \<open>setValue("")\<close> blanks a cell. Numbers are modelled as
  integers (heights, millisecond timestamps); fractional numbers are outside the model.
\<close>

datatype cell = CStr string | CNum int | CDate int | CBool bool

abbreviation blank :: cell where
  "blank \<equiv> CStr []"

text \<open>JavaScript truthiness, as used by \<open>!x\<close>, \<open>x && y\<close> and \<open>if (x)\<close>.\<close>

fun truthy :: "cell \<Rightarrow> bool" where
  "truthy (CStr s) = (s \<noteq> [])"
| "truthy (CNum n) = (n \<noteq> 0)"
| "truthy (CDate t) = True"
| "truthy (CBool b) = b"

text \<open>Truthiness of a value that is a string or \<open>null\<close> (a script property, an error text).\<close>

fun truthy_str :: "string option \<Rightarrow> bool" where
  "truthy_str None = False"
| "truthy_str (Some s) = (s \<noteq> [])"

text \<open>
  Numeric coercion (\<open>None\<close> is \<open>NaN\<close>). A Date coerces to its millisecond time value, the
  empty string to 0. Sheets stores numeric input as numbers, so a non-empty string cell is
  text; text that happens to read as a numeral (plain-text formatted cells) is outside the
  model and coerces to \<open>NaN\<close> here.
\<close>

fun to_number :: "cell \<Rightarrow> int option" where
  "to_number (CNum n) = Some n"
| "to_number (CDate t) = Some t"
| "to_number (CBool b) = Some (if b then 1 else 0)"
| "to_number (CStr s) = (if s = [] then Some 0 else None)"

text \<open>\<open>a - b\<close>, \<open>a < b\<close>, \<open>a > b\<close>, \<open>a >= b\<close> on numbers that may be \<open>NaN\<close>: every comparison
  with \<open>NaN\<close> is false. In the script one operand of each comparison is always a number,
  so the comparison is numeric.\<close>

fun js_minus :: "int option \<Rightarrow> int option \<Rightarrow> int option" where
  "js_minus (Some a) (Some b) = Some (a - b)"
| "js_minus _ _ = None"

fun js_lt :: "int option \<Rightarrow> int option \<Rightarrow> bool" where
  "js_lt (Some a) (Some b) = (a < b)"
| "js_lt _ _ = False"

fun js_gt :: "int option \<Rightarrow> int option \<Rightarrow> bool" where
  "js_gt (Some a) (Some b) = (a > b)"
| "js_gt _ _ = False"

fun js_ge :: "int option \<Rightarrow> int option \<Rightarrow> bool" where
  "js_ge (Some a) (Some b) = (a \<ge> b)"
| "js_ge _ _ = False"

section \<open>Constants of the script\<close>

definition NODE_URL :: nat where "NODE_URL = 2"
definition STATUS :: nat where "STATUS = 3"
definition ERROR_TYPE :: nat where "ERROR_TYPE = 4"
definition DB :: nat where "DB = 5"
definition API :: nat where "API = 6"
definition BLOCK_HEIGHT :: nat where "BLOCK_HEIGHT = 7"
definition ERROR_DETECTED :: nat where "ERROR_DETECTED = 8"
definition LAST_NOTIFIED :: nat where "LAST_NOTIFIED = 9"
definition DISABLED :: nat where "DISABLED = 10"

lemmas COLUMN_MAPPING =
  NODE_URL_def STATUS_def ERROR_TYPE_def DB_def API_def BLOCK_HEIGHT_def
  ERROR_DETECTED_def LAST_NOTIFIED_def DISABLED_def

definition RUNNING :: string where "RUNNING = ''Running''"
definition ERROR :: string where "ERROR = ''Error''"
definition DELAY :: string where "DELAY = ''Delay''"

lemmas STATUS_TYPES = RUNNING_def ERROR_def DELAY_def

definition TIMEOUT :: string where "TIMEOUT = ''Timeout''"
definition DB_API :: string where "DB_API = ''DB/API''"
definition BLOCK_DELAY :: string where "BLOCK_DELAY = ''BlockDelay''"

text \<open>The label \<open>SSL_CERT\<close> is "SSL" followed by seven Japanese characters, and the
  disabled marker is two; both are given as their UTF-8 bytes.\<close>

definition SSL_CERT :: string where
  "SSL_CERT = ''SSL'' @
     [CHR 0xE8, CHR 0xA8, CHR 0xBC, CHR 0xE6, CHR 0x98, CHR 0x8E, CHR 0xE6, CHR 0x9B, CHR 0xB8,
      CHR 0xE6, CHR 0x9C, CHR 0x9F, CHR 0xE9, CHR 0x99, CHR 0x90, CHR 0xE5, CHR 0x88, CHR 0x87,
      CHR 0xE3, CHR 0x82, CHR 0x8C]"

definition DISABLED_MARK :: string where
  "DISABLED_MARK = [CHR 0xE7, CHR 0x84, CHR 0xA1, CHR 0xE5, CHR 0x8A, CHR 0xB9]"

lemmas ERROR_TYPES = TIMEOUT_def DB_API_def BLOCK_DELAY_def SSL_CERT_def

definition FIRST_DATA_ROW :: nat where "FIRST_DATA_ROW = 4"
definition NOTIFICATION_INTERVAL :: int where "NOTIFICATION_INTERVAL = 30 * 60 * 1000"

section \<open>Strings\<close>

text \<open>\<open>s.includes(p)\<close>: \<open>p\<close> occurs in \<open>s\<close> as a contiguous substring.\<close>

fun str_includes :: "string \<Rightarrow> string \<Rightarrow> bool" where
  "str_includes [] p = (p = [])"
| "str_includes (c # cs) p = (take (length p) (c # cs) = p \<or> str_includes cs p)"

text \<open>
  White space as \<open>trim\<close> strips it and \<open>parseInt\<close> skips it: the ECMAScript code points
  of WhiteSpace and LineTerminator, each as its UTF-8 bytes. These are tab, line feed,
  vertical tab, form feed, carriage return and space, then U+00A0, U+1680, U+2000 to
  U+200A, U+2028, U+2029, U+202F, U+205F, U+3000 and U+FEFF.
\<close>

definition white_space :: "string list" where
  "white_space =
     [[CHR 0x09], [CHR 0x0A], [CHR 0x0B], [CHR 0x0C], [CHR 0x0D], [CHR 0x20],
      [CHR 0xC2, CHR 0xA0],
      [CHR 0xE1, CHR 0x9A, CHR 0x80],
      [CHR 0xE2, CHR 0x80, CHR 0x80], [CHR 0xE2, CHR 0x80, CHR 0x81],
      [CHR 0xE2, CHR 0x80, CHR 0x82], [CHR 0xE2, CHR 0x80, CHR 0x83],
      [CHR 0xE2, CHR 0x80, CHR 0x84], [CHR 0xE2, CHR 0x80, CHR 0x85],
      [CHR 0xE2, CHR 0x80, CHR 0x86], [CHR 0xE2, CHR 0x80, CHR 0x87],
      [CHR 0xE2, CHR 0x80, CHR 0x88], [CHR 0xE2, CHR 0x80, CHR 0x89],
      [CHR 0xE2, CHR 0x80, CHR 0x8A],
      [CHR 0xE2, CHR 0x80, CHR 0xA8], [CHR 0xE2, CHR 0x80, CHR 0xA9],
      [CHR 0xE2, CHR 0x80, CHR 0xAF],
      [CHR 0xE2, CHR 0x81, CHR 0x9F],
      [CHR 0xE3, CHR 0x80, CHR 0x80],
      [CHR 0xEF, CHR 0xBB, CHR 0xBF]]"

text \<open>The number of bytes of the white space that \<open>s\<close> starts with, among the given
  byte sequences (0 when it starts with none), and what is left of \<open>s\<close> once all leading
  white space is dropped.\<close>

definition space_len :: "string list \<Rightarrow> string \<Rightarrow> nat" where
  "space_len spaces s =
     (case filter (\<lambda>p. take (length p) s = p) spaces of
        [] \<Rightarrow> 0
      | p # ps \<Rightarrow> length p)"

function skip_spaces :: "string list \<Rightarrow> string \<Rightarrow> string" where
  "skip_spaces spaces s =
     (if s = [] \<or> space_len spaces s = 0 then s
      else skip_spaces spaces (drop (space_len spaces s) s))"
  by pat_completeness auto
termination
  by (relation "measure (\<lambda>(spaces, s). length s)") auto

declare skip_spaces.simps [simp del]

text \<open>\<open>s.trim()\<close>: white space is dropped at both ends; at the end it is found by reading
  the string and the byte sequences backwards.\<close>

definition trim :: "string \<Rightarrow> string" where
  "trim s = rev (skip_spaces (map rev white_space) (rev (skip_spaces white_space s)))"

text \<open>Decimal rendering of a natural number, for \<open>`HTTP ${code}`\<close>.\<close>

fun decimal :: "nat \<Rightarrow> string" where
  "decimal n =
     (if n < 10 then [char_of (48 + n)]
      else decimal (n div 10) @ [char_of (48 + n mod 10)])"

declare decimal.simps [simp del]

text \<open>
  \<open>parseInt(x)\<close> with no radix, on the string form of its argument: leading white space
  is skipped, then an optional sign, then an optional \<open>0x\<close>/\<open>0X\<close> prefix selecting radix 16
  (radix 10 otherwise); the longest run of digits of that radix is read and anything after
  it is ignored. No digit at all gives \<open>NaN\<close> (\<open>None\<close>).
\<close>

definition digit_of :: "char \<Rightarrow> nat option" where
  "digit_of c =
     (let k = (of_char c :: nat) in
      if 48 \<le> k \<and> k \<le> 57 then Some (k - 48)
      else if 97 \<le> k \<and> k \<le> 102 then Some (k - 87)
      else if 65 \<le> k \<and> k \<le> 70 then Some (k - 55)
      else None)"

definition is_digit :: "nat \<Rightarrow> char \<Rightarrow> bool" where
  "is_digit radix c = (case digit_of c of None \<Rightarrow> False | Some d \<Rightarrow> d < radix)"

definition digits_value :: "nat \<Rightarrow> string \<Rightarrow> int" where
  "digits_value radix ds =
     foldl (\<lambda>acc c. case digit_of c of None \<Rightarrow> acc | Some d \<Rightarrow> acc * int radix + int d) 0 ds"

definition parse_digits :: "nat \<Rightarrow> string \<Rightarrow> int option" where
  "parse_digits radix s =
     (let ds = takeWhile (is_digit radix) s
      in if ds = [] then None else Some (digits_value radix ds))"

definition parse_unsigned :: "string \<Rightarrow> int option" where
  "parse_unsigned s =
     (if take 2 s = ''0x'' \<or> take 2 s = ''0X'' then parse_digits 16 (drop 2 s)
      else parse_digits 10 s)"

definition parseInt :: "string \<Rightarrow> int option" where
  "parseInt x =
     (let s = skip_spaces white_space x in
      case s of
        [] \<Rightarrow> None
      | c # cs \<Rightarrow>
          if c = CHR ''-'' then map_option uminus (parse_unsigned cs)
          else if c = CHR ''+'' then parse_unsigned cs
          else parse_unsigned s)"

section \<open>The sheet, the clock and the outside world\<close>

text \<open>
  What a pass reads from outside and cannot change: the successive readings of the clock
  (\<open>clock k\<close> is what the \<open>k\<close>-th \<open>new Date()\<close> returns, in milliseconds), the session
  identity, the script properties (\<open>getProperty\<close> gives \<open>null\<close>, here \<open>None\<close>, for a
  missing key), what the two endpoints of a node answer (the same answer whenever the
  URL is fetched within the pass), and whether the mail and chat transports throw during
  the \<open>k\<close>-th dispatch.
\<close>

datatype health_body =
    HealthBodyThrows string
  | HealthStatus "string option" "string option"

datatype health_fetch =
    HealthThrows string
  | HealthResponse nat health_body

datatype chain_body =
    ChainBodyThrows string
  | ChainHeightField string

datatype chain_fetch =
    ChainThrows string
  | ChainResponse nat chain_body

record env =
  clock :: "nat \<Rightarrow> int"
  activeUserEmail :: string
  getProperty :: "string \<Rightarrow> string option"
  healthEndpoint :: "string \<Rightarrow> health_fetch"
  chainEndpoint :: "string \<Rightarrow> chain_fetch"
  mailThrows :: "nat \<Rightarrow> bool"
  slackThrows :: "nat \<Rightarrow> bool"

text \<open>
  \<open>HealthThrows e\<close>: the fetch of \<open>/node/health\<close> throws and \<open>error.toString()\<close> is \<open>e\<close>.
  \<open>HealthResponse code body\<close>: it answers with that status code; \<open>HealthBodyThrows e\<close> is a
  body on which \<open>JSON.parse\<close> or the access to \<open>data.status\<close> throws, \<open>HealthStatus d a\<close> a
  body whose \<open>status.db\<close> and \<open>status.apiNode\<close> are the strings \<open>d\<close> and \<open>a\<close> (\<open>None\<close> when
  the field, or the whole \<open>status\<close> object, is missing). Field values that are not strings
  are outside the model. Likewise for \<open>/chain/info\<close>, where \<open>ChainHeightField s\<close> carries the
  string form of \<open>data.height\<close>, which is what \<open>parseInt\<close> reads (\<open>undefined\<close> for a
  missing field).
\<close>

record node =
  row :: nat
  url :: string

record target = node +
  status :: cell
  errorType :: cell
  errorDetected :: cell

text \<open>
  The trace of the notifier: one entry per call of \<open>sendNotification\<close> or
  \<open>sendRecoveryNotification\<close>, with the transport calls it made, in order. The flag of a
  transport call tells whether the call threw (every such throw is caught and logged where
  it happens, and nothing after the call is skipped). The wording of subjects and bodies
  is not modelled; an entry keeps what the message is about. Console output is not
  modelled, nor are failures of the spreadsheet service itself.
\<close>

datatype transport_call =
    SendEmail string bool
  | PostWebhook string bool
  | PostBotMessage string string bool

datatype subject_matter =
    Alert "target list"
  | Recovery cell

datatype dispatch = Dispatch subject_matter "transport_call list"

record world =
  cells :: "nat \<Rightarrow> nat \<Rightarrow> cell"
  ticks :: nat
  trace :: "dispatch list"

definition getValue :: "world \<Rightarrow> nat \<Rightarrow> nat \<Rightarrow> cell" where
  "getValue w r c = cells w r c"

definition setValue :: "world \<Rightarrow> nat \<Rightarrow> nat \<Rightarrow> cell \<Rightarrow> world" where
  "setValue w r c v = w\<lparr>cells := (cells w)(r := (cells w r)(c := v))\<rparr>"

text \<open>\<open>new Date()\<close>: the next reading of the clock.\<close>

definition newDate :: "env \<Rightarrow> world \<Rightarrow> int \<times> world" where
  "newDate e w = (clock e (ticks w), w\<lparr>ticks := Suc (ticks w)\<rparr>)"

section \<open>Health prober\<close>

text \<open>\<open>checkNodeHealth\<close> (lines 162-216) and \<open>getChainHeight\<close> (lines 223-242). Both catch
  everything; \<open>health_catch\<close> is the catch block of the former.\<close>

record healthResult =
  timeout :: bool
  sslError :: bool
  error :: "string option"
  db :: string
  api :: string

text \<open>\<open>x || "unknown"\<close> on a string or missing field.\<close>

fun or_unknown :: "string option \<Rightarrow> string" where
  "or_unknown None = ''unknown''"
| "or_unknown (Some s) = (if s = [] then ''unknown'' else s)"

definition health_catch :: "string \<Rightarrow> healthResult" where
  "health_catch errorStr =
     (if str_includes errorStr ''timeout'' \<or> str_includes errorStr ''Timeout''
      then \<lparr>timeout = True, sslError = False, error = None, db = [], api = []\<rparr>
      else if str_includes errorStr ''certificate'' \<or> str_includes errorStr ''SSL''
              \<or> str_includes errorStr ''TLS''
      then \<lparr>timeout = False, sslError = True, error = Some errorStr, db = [], api = []\<rparr>
      else \<lparr>timeout = False, sslError = False, error = Some errorStr, db = [], api = []\<rparr>)"

fun checkNodeHealth_of :: "health_fetch \<Rightarrow> healthResult" where
  "checkNodeHealth_of (HealthThrows e) = health_catch e"
| "checkNodeHealth_of (HealthResponse code body) =
     (if code \<noteq> 200
      then \<lparr>timeout = False, sslError = False, error = Some (''HTTP '' @ decimal code),
            db = [], api = []\<rparr>
      else case body of
             HealthBodyThrows e \<Rightarrow> health_catch e
           | HealthStatus d a \<Rightarrow>
               \<lparr>timeout = False, sslError = False, error = None,
                db = or_unknown d, api = or_unknown a\<rparr>)"

definition checkNodeHealth :: "env \<Rightarrow> string \<Rightarrow> healthResult" where
  "checkNodeHealth e nodeUrl = checkNodeHealth_of (healthEndpoint e nodeUrl)"

record chainResult =
  height :: "int option"
  chainError :: "string option"

fun getChainHeight_of :: "chain_fetch \<Rightarrow> chainResult" where
  "getChainHeight_of (ChainThrows e) = \<lparr>height = None, chainError = Some e\<rparr>"
| "getChainHeight_of (ChainResponse code body) =
     (if code \<noteq> 200
      then \<lparr>height = None, chainError = Some (''HTTP '' @ decimal code)\<rparr>
      else case body of
             ChainBodyThrows e \<Rightarrow> \<lparr>height = None, chainError = Some e\<rparr>
           | ChainHeightField s \<Rightarrow> \<lparr>height = parseInt s, chainError = None\<rparr>)"

definition getChainHeight :: "env \<Rightarrow> string \<Rightarrow> chainResult" where
  "getChainHeight e nodeUrl = getChainHeight_of (chainEndpoint e nodeUrl)"

section \<open>Notifier\<close>

text \<open>\<open>checkSlackConfiguration\<close> (lines 590-597), \<open>sendSlackNotification\<close> (lines 471-507),
  \<open>sendNotification\<close> (lines 387-427) and \<open>sendRecoveryNotification\<close> (lines 513-550).\<close>

fun str_of :: "string option \<Rightarrow> string" where
  "str_of None = []"
| "str_of (Some s) = s"

definition checkSlackConfiguration :: "env \<Rightarrow> bool" where
  "checkSlackConfiguration e =
     (let webhookUrl = getProperty e ''SLACK_WEBHOOK_URL'';
          token = getProperty e ''SLACK_TOKEN'';
          channel = getProperty e ''SLACK_CHANNEL''
      in truthy_str webhookUrl \<or> (truthy_str token \<and> truthy_str channel))"

text \<open>The transport calls of \<open>sendSlackNotification\<close> during dispatch \<open>k\<close>. A throw of
  the fetch is caught and logged by the caller; it is recorded in the call's flag.\<close>

definition sendSlackNotification :: "env \<Rightarrow> nat \<Rightarrow> transport_call list" where
  "sendSlackNotification e k =
     (let webhookUrl = getProperty e ''SLACK_WEBHOOK_URL'';
          token = getProperty e ''SLACK_TOKEN'';
          channel = getProperty e ''SLACK_CHANNEL''
      in if \<not> truthy_str webhookUrl \<and> (\<not> truthy_str token \<or> \<not> truthy_str channel) then []
         else if truthy_str webhookUrl then [PostWebhook (str_of webhookUrl) (slackThrows e k)]
         else if truthy_str token \<and> truthy_str channel
              then [PostBotMessage (str_of token) (str_of channel) (slackThrows e k)]
         else [])"

text \<open>The block that resolves the operator address and mails it, repeated verbatim in
  \<open>sendNotification\<close> and \<open>sendRecoveryNotification\<close>: the session identity, else the
  property \<open>EMAIL_ADDRESS\<close>; no mail when neither is a non-empty string.\<close>

definition operatorEmail :: "env \<Rightarrow> string option" where
  "operatorEmail e =
     (let email = Some (activeUserEmail e)
      in if \<not> truthy_str email then getProperty e ''EMAIL_ADDRESS'' else email)"

definition sendEmail :: "env \<Rightarrow> nat \<Rightarrow> transport_call list" where
  "sendEmail e k =
     (let email = operatorEmail e
      in if truthy_str email then [SendEmail (str_of email) (mailThrows e k)] else [])"

text \<open>
  \<open>formatDateTime(date)\<close> returns the empty string for a falsy argument and otherwise calls
  \<open>date.getFullYear()\<close>, which throws a TypeError on anything that is not a Date. The result
  kept here is the time that is rendered (\<open>None\<close> for the empty string).
  \<open>createNotificationMessage\<close> formats the detection time of every target, so it throws
  when one of them holds a truthy value that is not a Date; nothing in \<open>sendNotification\<close>
  or its callers up to \<open>main\<close> catches that.
\<close>

datatype js_error = TypeError

fun formatDateTime :: "cell \<Rightarrow> js_error + int option" where
  "formatDateTime (CDate t) = Inr (Some t)"
| "formatDateTime date = (if \<not> truthy date then Inr None else Inl TypeError)"

primrec createNotificationMessage :: "target list \<Rightarrow> js_error + int option list" where
  "createNotificationMessage [] = Inr []"
| "createNotificationMessage (t # ts) =
     (case formatDateTime (errorDetected t) of
        Inl err \<Rightarrow> Inl err
      | Inr d \<Rightarrow>
          (case createNotificationMessage ts of
             Inl err \<Rightarrow> Inl err
           | Inr ds \<Rightarrow> Inr (d # ds)))"

text \<open>The outcome of a function that may throw: the world it leaves behind, and the
  error when it threw.\<close>

datatype outcome = Returns world | Throws js_error world

fun world_of :: "outcome \<Rightarrow> world" where
  "world_of (Returns w) = w"
| "world_of (Throws err w) = w"

definition stampNotified :: "int \<Rightarrow> world \<Rightarrow> target list \<Rightarrow> world" where
  "stampNotified now w targets =
     foldl (\<lambda>w' t. setValue w' (row t) LAST_NOTIFIED (CDate now)) w targets"

definition sendNotification :: "env \<Rightarrow> world \<Rightarrow> target list \<Rightarrow> outcome" where
  "sendNotification e w targets =
     (let (now, w1) = newDate e w in
      case createNotificationMessage targets of
        Inl err \<Rightarrow> Throws err w1
      | Inr message \<Rightarrow>
          (let k = length (trace w1);
               hasSlackConfig = checkSlackConfiguration e;
               mail = (if \<not> hasSlackConfig then sendEmail e k else []);
               slack = sendSlackNotification e k;
               w2 = w1\<lparr>trace := trace w1 @ [Dispatch (Alert targets) (mail @ slack)]\<rparr>
           in Returns (stampNotified now w2 targets)))"

definition sendRecoveryNotification :: "env \<Rightarrow> world \<Rightarrow> cell \<Rightarrow> world" where
  "sendRecoveryNotification e w nodeUrl =
     (let (now, w1) = newDate e w;
          k = length (trace w1);
          hasSlackConfig = checkSlackConfiguration e;
          mail = (if \<not> hasSlackConfig then sendEmail e k else []);
          slack = sendSlackNotification e k
      in w1\<lparr>trace := trace w1 @ [Dispatch (Recovery nodeUrl) (mail @ slack)]\<rparr>)"

text \<open>The snapshot \<open>src/Code.js\<close> has no \<open>checkSlackConfiguration\<close>: its
  \<open>sendNotification\<close> (lines 374-409) and its \<open>sendRecoveryNotification\<close> (lines 478-507)
  run the mail block unconditionally and then call \<open>sendSlackNotification\<close>, which is the
  same in both snapshots. Its message builder prints the detection time as it is, so it
  cannot throw.\<close>

definition sendNotification_Code :: "env \<Rightarrow> world \<Rightarrow> target list \<Rightarrow> world" where
  "sendNotification_Code e w targets =
     (let (now, w1) = newDate e w;
          k = length (trace w1);
          mail = sendEmail e k;
          slack = sendSlackNotification e k;
          w2 = w1\<lparr>trace := trace w1 @ [Dispatch (Alert targets) (mail @ slack)]\<rparr>
      in stampNotified now w2 targets)"

definition sendRecoveryNotification_Code :: "env \<Rightarrow> world \<Rightarrow> cell \<Rightarrow> world" where
  "sendRecoveryNotification_Code e w nodeUrl =
     (let (now, w1) = newDate e w;
          k = length (trace w1);
          mail = sendEmail e k;
          slack = sendSlackNotification e k
      in w1\<lparr>trace := trace w1 @ [Dispatch (Recovery nodeUrl) (mail @ slack)]\<rparr>)"

section \<open>Node state machine\<close>

text \<open>\<open>setNodeError\<close> (lines 251-262), \<open>clearNodeError\<close> (lines 269-285), \<open>clearHealthData\<close>
  (lines 292-296) and \<open>monitorNode\<close> (lines 109-155).\<close>

definition setNodeError :: "env \<Rightarrow> world \<Rightarrow> nat \<Rightarrow> string \<Rightarrow> string \<Rightarrow> world" where
  "setNodeError e w r stat etype =
     (let w1 = setValue w r STATUS (CStr stat);
          w2 = setValue w1 r ERROR_TYPE (CStr etype);
          detected = getValue w2 r ERROR_DETECTED
      in if \<not> truthy detected
         then (let (now, w3) = newDate e w2 in setValue w3 r ERROR_DETECTED (CDate now))
         else w2)"

definition clearNodeError :: "env \<Rightarrow> world \<Rightarrow> nat \<Rightarrow> world" where
  "clearNodeError e w r =
     (let lastNotified = getValue w r LAST_NOTIFIED;
          nodeUrl = getValue w r NODE_URL;
          w1 = (if truthy lastNotified then sendRecoveryNotification e w nodeUrl else w);
          w2 = setValue w1 r STATUS (CStr RUNNING);
          w3 = setValue w2 r ERROR_TYPE blank;
          w4 = setValue w3 r ERROR_DETECTED blank
      in setValue w4 r LAST_NOTIFIED blank)"

definition clearHealthData :: "world \<Rightarrow> nat \<Rightarrow> world" where
  "clearHealthData w r =
     (let w1 = setValue w r DB blank;
          w2 = setValue w1 r API blank
      in setValue w2 r BLOCK_HEIGHT blank)"

definition monitorNode :: "env \<Rightarrow> world \<Rightarrow> nat \<Rightarrow> string \<Rightarrow> world" where
  "monitorNode e w r nodeUrl =
     (let healthResult = checkNodeHealth e nodeUrl in
      if timeout healthResult then clearHealthData (setNodeError e w r ERROR TIMEOUT) r
      else if sslError healthResult then clearHealthData (setNodeError e w r ERROR SSL_CERT) r
      else if truthy_str (error healthResult) then w
      else
        (let w1 = setValue w r DB (CStr (db healthResult));
             w2 = setValue w1 r API (CStr (api healthResult));
             chainResult = getChainHeight e nodeUrl;
             w3 = (case height chainResult of
                     None \<Rightarrow> w2
                   | Some h \<Rightarrow> setValue w2 r BLOCK_HEIGHT (CNum h))
         in if db healthResult \<noteq> ''up'' \<or> api healthResult \<noteq> ''up''
            then setNodeError e w3 r ERROR DB_API
            else clearNodeError e w3 r))"

section \<open>Block delay detector\<close>

text \<open>\<open>checkBlockDelay\<close> (lines 303-337): \<open>maxHeightOf\<close> is its first loop, \<open>flagDelayed\<close> its
  second, which reads each height again from the sheet it is writing to.\<close>

definition maxHeightOf :: "world \<Rightarrow> node list \<Rightarrow> cell" where
  "maxHeightOf w nodes =
     foldl (\<lambda>maxHeight n.
              let h = getValue w (row n) BLOCK_HEIGHT
              in if truthy h \<and> js_gt (to_number h) (to_number maxHeight) then h else maxHeight)
           (CNum 0) nodes"

definition flagDelayed :: "env \<Rightarrow> int option \<Rightarrow> world \<Rightarrow> node list \<Rightarrow> world" where
  "flagDelayed e minAcceptableHeight w nodes =
     foldl (\<lambda>w' n.
              let currentHeight = getValue w' (row n) BLOCK_HEIGHT
              in if truthy currentHeight \<and> js_lt (to_number currentHeight) minAcceptableHeight
                 then setNodeError e w' (row n) DELAY BLOCK_DELAY
                 else w')
           w nodes"

definition checkBlockDelay :: "env \<Rightarrow> world \<Rightarrow> node list \<Rightarrow> world" where
  "checkBlockDelay e w nodes =
     (let maxHeight = maxHeightOf w nodes;
          threshold = getValue w 1 7
      in if \<not> truthy maxHeight \<or> \<not> truthy threshold then w
         else flagDelayed e (js_minus (to_number maxHeight) (to_number threshold)) w nodes)"

text \<open>The snapshot \<open>src/Code.js\<close> differs in one line: it takes the reference height from
  cell C1 instead of computing it from the rows.\<close>

definition checkBlockDelay_Code :: "env \<Rightarrow> world \<Rightarrow> node list \<Rightarrow> world" where
  "checkBlockDelay_Code e w nodes =
     (let maxHeight = getValue w 1 3;
          threshold = getValue w 1 7
      in if \<not> truthy maxHeight \<or> \<not> truthy threshold then w
         else flagDelayed e (js_minus (to_number maxHeight) (to_number threshold)) w nodes)"

section \<open>Notification scheduler\<close>

text \<open>\<open>processNotifications\<close> (lines 344-380): \<open>notificationTargets\<close> is its loop.\<close>

definition shouldNotify :: "int \<Rightarrow> cell \<Rightarrow> bool" where
  "shouldNotify now lastNotified =
     (\<not> truthy lastNotified
      \<or> js_ge (js_minus (Some now) (to_number lastNotified)) (Some NOTIFICATION_INTERVAL))"

primrec notificationTargets :: "world \<Rightarrow> int \<Rightarrow> node list \<Rightarrow> target list" where
  "notificationTargets w now [] = []"
| "notificationTargets w now (n # ns) =
     (let stat = getValue w (row n) STATUS;
          lastNotified = getValue w (row n) LAST_NOTIFIED
      in if stat \<noteq> CStr RUNNING \<and> shouldNotify now lastNotified
         then \<lparr>row = row n, url = url n, status = stat,
               errorType = getValue w (row n) ERROR_TYPE,
               errorDetected = getValue w (row n) ERROR_DETECTED\<rparr>
              # notificationTargets w now ns
         else notificationTargets w now ns)"

definition processNotifications :: "env \<Rightarrow> world \<Rightarrow> node list \<Rightarrow> outcome" where
  "processNotifications e w nodes =
     (let (now, w1) = newDate e w;
          targets = notificationTargets w1 now nodes
      in if length targets > 0 then sendNotification e w1 targets else Returns w1)"

section \<open>One pass over a sheet\<close>

text \<open>\<open>getMonitoringNodes\<close> (lines 87-101) and \<open>processSheet\<close> (lines 53-80), for a sheet
  that exists; \<open>lastRow\<close> is what \<open>sheet.getLastRow()\<close> returns. An error thrown by the
  scheduler leaves \<open>processSheet\<close> for the handler in \<open>main\<close>, which is not modelled.\<close>

text \<open>\<open>url.toString()\<close> of a cell. The rendering of a Date depends on the locale and is
  left to a parameter.\<close>

definition int_string :: "int \<Rightarrow> string" where
  "int_string i = (if i < 0 then CHR ''-'' # decimal (nat (- i)) else decimal (nat i))"

fun toString :: "(int \<Rightarrow> string) \<Rightarrow> cell \<Rightarrow> string" where
  "toString dateString (CStr s) = s"
| "toString dateString (CNum n) = int_string n"
| "toString dateString (CDate t) = dateString t"
| "toString dateString (CBool b) = (if b then ''true'' else ''false'')"

definition getMonitoringNodes :: "(int \<Rightarrow> string) \<Rightarrow> world \<Rightarrow> nat \<Rightarrow> node list" where
  "getMonitoringNodes dateString w lastRow =
     concat (map (\<lambda>r.
        let u = getValue w r NODE_URL;
            disabled = getValue w r DISABLED
        in if truthy u \<and> trim (toString dateString u) \<noteq> [] \<and> disabled \<noteq> CStr DISABLED_MARK
           then [\<lparr>row = r, url = trim (toString dateString u)\<rparr>]
           else [])
       [FIRST_DATA_ROW ..< Suc lastRow])"

definition monitorAll :: "env \<Rightarrow> world \<Rightarrow> node list \<Rightarrow> world" where
  "monitorAll e w nodes = foldl (\<lambda>w' n. monitorNode e w' (row n) (url n)) w nodes"

definition processSheet :: "(int \<Rightarrow> string) \<Rightarrow> env \<Rightarrow> world \<Rightarrow> nat \<Rightarrow> bool \<Rightarrow> outcome" where
  "processSheet dateString e w lastRow enableNotification =
     (let nodes = getMonitoringNodes dateString w lastRow
      in if length nodes = 0 then Returns w
         else
           (let w1 = monitorAll e w nodes;
                w2 = checkBlockDelay e w1 nodes
            in if enableNotification then processNotifications e w2 nodes else Returns w2))"

section \<open>Notions used to state the properties\<close>

text \<open>
  A node record is a row of the sheet: its status is the cell in column \<open>STATUS\<close>, its
  error kind the cell in column \<open>ERROR_TYPE\<close> (blank for "none"), and so on. The relation
  between status, error kind and the two timestamps of the row \<open>r\<close>:
  status is Running iff the error kind is none iff both timestamps are blank.
\<close>

definition node_invariant :: "world \<Rightarrow> nat \<Rightarrow> bool" where
  "node_invariant w r =
     (((getValue w r STATUS = CStr RUNNING) = (getValue w r ERROR_TYPE = blank)) \<and>
      ((getValue w r ERROR_TYPE = blank) =
         (getValue w r ERROR_DETECTED = blank \<and> getValue w r LAST_NOTIFIED = blank)))"

text \<open>The outcomes of a probe, read off the result of \<open>checkNodeHealth\<close> the way
  \<open>monitorNode\<close> tests it: the third branch is the transport error, the fall-through the
  healthy answer.\<close>

definition is_transport_error :: "healthResult \<Rightarrow> bool" where
  "is_transport_error h = (\<not> timeout h \<and> \<not> sslError h \<and> truthy_str (error h))"

definition is_healthy :: "healthResult \<Rightarrow> bool" where
  "is_healthy h = (\<not> timeout h \<and> \<not> sslError h \<and> \<not> truthy_str (error h))"

text \<open>The test of the second loop of \<open>checkBlockDelay\<close> on row \<open>r\<close>.\<close>

definition lagging :: "world \<Rightarrow> int option \<Rightarrow> nat \<Rightarrow> bool" where
  "lagging w m r =
     (truthy (getValue w r BLOCK_HEIGHT) \<and> js_lt (to_number (getValue w r BLOCK_HEIGHT)) m)"

text \<open>The heights stored for the listed rows: the numbers in their height cells,
  whichever pass wrote them. \<open>heightsNumeric\<close> says that every listed row has a height cell
  as the script leaves it: blank (never probed, or cleared) or a number.\<close>

definition storedHeights :: "world \<Rightarrow> node list \<Rightarrow> int list" where
  "storedHeights w nodes =
     concat (map (\<lambda>n. case getValue w (row n) BLOCK_HEIGHT of
                          CNum h \<Rightarrow> [h]
                        | _ \<Rightarrow> []) nodes)"

definition heightsNumeric :: "world \<Rightarrow> node list \<Rightarrow> bool" where
  "heightsNumeric w nodes =
     list_all (\<lambda>n. case getValue w (row n) BLOCK_HEIGHT of
                      CNum h \<Rightarrow> True
                    | CStr s \<Rightarrow> s = []
                    | _ \<Rightarrow> False) nodes"

text \<open>The rows the detector flags for a given bound: row \<open>r\<close> is listed and its stored
  height is a number other than 0 that lies below the bound.\<close>

definition flaggable :: "world \<Rightarrow> node list \<Rightarrow> int \<Rightarrow> nat \<Rightarrow> bool" where
  "flaggable w nodes bound r =
     (r \<in> set (map row nodes) \<and>
      (case getValue w r BLOCK_HEIGHT of
         CNum h \<Rightarrow> h \<noteq> 0 \<and> h < bound
       | _ \<Rightarrow> False))"

text \<open>\<open>sendNotification\<close> gets as far as dispatching the batch: no detection time of a
  target makes \<open>createNotificationMessage\<close> throw.\<close>

definition dispatched :: "target list \<Rightarrow> bool" where
  "dispatched targets = (case createNotificationMessage targets of Inl err \<Rightarrow> False | Inr m \<Rightarrow> True)"

definition is_degraded :: "healthResult \<Rightarrow> bool" where
  "is_degraded h = (is_healthy h \<and> (db h \<noteq> ''up'' \<or> api h \<noteq> ''up''))"

definition is_recovered :: "healthResult \<Rightarrow> bool" where
  "is_recovered h = (is_healthy h \<and> db h = ''up'' \<and> api h = ''up'')"

text \<open>The rule of the specification for re-alerting: a record is due when its last
  notification time is empty or lies at least 30 minutes before \<open>now\<close>. It is stated for
  cells that hold a timestamp or nothing.\<close>

definition due :: "int \<Rightarrow> cell \<Rightarrow> bool" where
  "due now lastNotifiedAt =
     (case lastNotifiedAt of
        CStr s \<Rightarrow> s = []
      | CDate t \<Rightarrow> now - t \<ge> 30 * 60 * 1000
      | _ \<Rightarrow> False)"

definition timestampOrBlank :: "cell \<Rightarrow> bool" where
  "timestampOrBlank c = (case c of CStr s \<Rightarrow> s = [] | CDate t \<Rightarrow> True | _ \<Rightarrow> False)"

text \<open>The transport calls of one dispatch, as \<open>sendNotification\<close> and
  \<open>sendRecoveryNotification\<close> make them: the mail block when no chat configuration
  exists, then \<open>sendSlackNotification\<close>.\<close>

definition notifierCalls :: "env \<Rightarrow> nat \<Rightarrow> transport_call list" where
  "notifierCalls e k =
     (if \<not> checkSlackConfiguration e then sendEmail e k else []) @ sendSlackNotification e k"

text \<open>The transport calls of one dispatch in the snapshot \<open>src/Code.js\<close>: the mail
  block, then \<open>sendSlackNotification\<close>.\<close>

definition notifierCalls_Code :: "env \<Rightarrow> nat \<Rightarrow> transport_call list" where
  "notifierCalls_Code e k = sendEmail e k @ sendSlackNotification e k"

fun is_email :: "transport_call \<Rightarrow> bool" where
  "is_email (SendEmail addr threw) = True"
| "is_email (PostWebhook hook threw) = False"
| "is_email (PostBotMessage token channel threw) = False"

text \<open>The rows that \<open>getMonitoringNodes\<close> lists, the enabled records: the URL cell is
  truthy and not blank after trimming, and the row is not marked as disabled.\<close>

definition enabled :: "(int \<Rightarrow> string) \<Rightarrow> world \<Rightarrow> nat \<Rightarrow> bool" where
  "enabled dateString w r =
     (truthy (getValue w r NODE_URL) \<and> trim (toString dateString (getValue w r NODE_URL)) \<noteq> []
      \<and> getValue w r DISABLED \<noteq> CStr DISABLED_MARK)"

section \<open>Example data\<close>

definition example_env :: env where
  "example_env =
     \<lparr>clock = (\<lambda>k. 1700000000000 + int k),
      activeUserEmail = ''ops@example.org'',
      getProperty = (\<lambda>key. None),
      healthEndpoint = (\<lambda>u.
         if u = ''https://slow.example'' then HealthThrows ''Exception: Timeout''
         else if u = ''https://gone.example'' then HealthThrows ''Exception: DNS error''
         else if u = ''https://tls.example'' then HealthThrows ''Exception: SSL handshake failed''
         else if u = ''https://down.example'' then HealthResponse 503 (HealthStatus None None)
         else if u = ''https://half.example''
           then HealthResponse 200 (HealthStatus (Some ''down'') (Some ''up''))
         else HealthResponse 200 (HealthStatus (Some ''up'') (Some ''up''))),
      chainEndpoint = (\<lambda>u. ChainResponse 200 (ChainHeightField ''1000'')),
      mailThrows = (\<lambda>k. True),
      slackThrows = (\<lambda>k. True)\<rparr>"

definition empty_sheet :: world where
  "empty_sheet = \<lparr>cells = (\<lambda>r c. blank), ticks = 0, trace = []\<rparr>"

text \<open>Three nodes at heights 1000, 940 and 951, with threshold 50 in cell G1.\<close>

definition fleet :: world where
  "fleet =
     setValue (setValue (setValue (setValue empty_sheet 1 7 (CNum 50))
       4 BLOCK_HEIGHT (CNum 1000)) 5 BLOCK_HEIGHT (CNum 940)) 6 BLOCK_HEIGHT (CNum 951)"

definition fleet_nodes :: "node list" where
  "fleet_nodes =
     [\<lparr>row = 4, url = ''https://a.example''\<rparr>,
      \<lparr>row = 5, url = ''https://b.example''\<rparr>,
      \<lparr>row = 6, url = ''https://c.example''\<rparr>]"

text \<open>A row in Error(Timeout) that was detected and notified earlier, last seen at
  height 500.\<close>

definition erring_row :: world where
  "erring_row =
     setValue (setValue (setValue (setValue (setValue (setValue empty_sheet
       4 NODE_URL (CStr ''https://down.example''))
       4 STATUS (CStr ERROR))
       4 ERROR_TYPE (CStr TIMEOUT))
       4 ERROR_DETECTED (CDate 1699999000000))
       4 LAST_NOTIFIED (CDate 1699999100000))
       4 BLOCK_HEIGHT (CNum 500)"

text \<open>A row that was just added to the sheet: only its URL is filled in.\<close>

definition fresh_row :: world where
  "fresh_row = setValue empty_sheet 4 NODE_URL (CStr ''https://down.example'')"

definition plain_date :: "int \<Rightarrow> string" where
  "plain_date t = ''Thu Jan 01 1970''"

definition erring_nodes :: "node list" where
  "erring_nodes = [\<lparr>row = 4, url = ''https://half.example''\<rparr>]"

text \<open>Four records at a pass whose clock reads 1700000000000: one in error and never
  notified, one notified 20 minutes ago, one notified 31 minutes ago, one running.\<close>

definition with_record :: "world \<Rightarrow> nat \<Rightarrow> cell \<Rightarrow> cell \<Rightarrow> cell \<Rightarrow> cell \<Rightarrow> world" where
  "with_record w r stat etype detected notified =
     setValue (setValue (setValue (setValue w r STATUS stat) r ERROR_TYPE etype)
       r ERROR_DETECTED detected) r LAST_NOTIFIED notified"

definition alerting :: world where
  "alerting =
     with_record (with_record (with_record (with_record empty_sheet
       4 (CStr ERROR) (CStr TIMEOUT) (CDate 1699990000000) blank)
       5 (CStr ERROR) (CStr DB_API) (CDate 1699990000000) (CDate 1699998800000))
       6 (CStr DELAY) (CStr BLOCK_DELAY) (CDate 1699990000000) (CDate 1699998140000))
       7 (CStr RUNNING) blank blank blank"

definition alerting_nodes :: "node list" where
  "alerting_nodes =
     [\<lparr>row = 4, url = ''https://a.example''\<rparr>,
      \<lparr>row = 5, url = ''https://b.example''\<rparr>,
      \<lparr>row = 6, url = ''https://c.example''\<rparr>,
      \<lparr>row = 7, url = ''https://d.example''\<rparr>]"

definition running_nodes :: "node list" where
  "running_nodes = [\<lparr>row = 7, url = ''https://d.example''\<rparr>]"

definition alerting_targets :: "target list" where
  "alerting_targets =
     [\<lparr>row = 4, url = ''https://a.example'', status = CStr ERROR, errorType = CStr TIMEOUT,
       errorDetected = CDate 1699990000000\<rparr>,
      \<lparr>row = 6, url = ''https://c.example'', status = CStr DELAY, errorType = CStr BLOCK_DELAY,
       errorDetected = CDate 1699990000000\<rparr>]"

text \<open>Configurations of the notifier: a chat webhook; a chat bot token with a channel;
  no session identity but a configured address; nothing at all.\<close>

definition webhook_env :: env where
  "webhook_env = example_env
     \<lparr>getProperty := (\<lambda>key. if key = ''SLACK_WEBHOOK_URL''
                              then Some ''https://hooks.slack.example/T0'' else None)\<rparr>"

definition bot_env :: env where
  "bot_env = example_env
     \<lparr>getProperty := (\<lambda>key. if key = ''SLACK_TOKEN'' then Some ''xoxb-1''
                              else if key = ''SLACK_CHANNEL'' then Some ''C012345''
                              else if key = ''EMAIL_ADDRESS'' then Some ''fallback@example.org''
                              else None)\<rparr>"

definition fallback_env :: env where
  "fallback_env = example_env
     \<lparr>activeUserEmail := [],
      getProperty := (\<lambda>key. if key = ''EMAIL_ADDRESS'' then Some ''fallback@example.org''
                              else None)\<rparr>"

definition silent_env :: env where
  "silent_env = example_env\<lparr>activeUserEmail := []\<rparr>"

text \<open>The same row when no alert has been sent for it yet.\<close>

definition unnotified_row :: world where
  "unnotified_row = setValue erring_row 4 LAST_NOTIFIED blank"

text \<open>Nodes whose chain-info endpoint reports a negative height, and nodes whose
  chain-info call fails (a 503, a thrown error, a height that does not parse).\<close>

definition negative_env :: env where
  "negative_env = example_env\<lparr>chainEndpoint := (\<lambda>u. ChainResponse 200 (ChainHeightField ''-5''))\<rparr>"

definition chainless_env :: env where
  "chainless_env = example_env\<lparr>chainEndpoint := (\<lambda>u.
      if u = ''https://half.example'' then ChainResponse 503 (ChainHeightField ''1000'')
      else if u = ''https://fine.example'' then ChainThrows ''Exception: Timeout''
      else ChainResponse 200 (ChainHeightField ''n/a''))\<rparr>"

text \<open>The fleet with a reference height in cell C1 and a fourth node stored at height 0.\<close>

definition zero_fleet :: world where
  "zero_fleet = setValue (setValue fleet 1 3 (CNum 1000)) 7 BLOCK_HEIGHT (CNum 0)"

definition zero_nodes :: "node list" where
  "zero_nodes = fleet_nodes @ [\<lparr>row = 7, url = ''https://d.example''\<rparr>]"

text \<open>The fleet with its URL column filled in, and a fourth row that is disabled.\<close>

definition fleet_sheet :: world where
  "fleet_sheet =
     setValue (setValue (setValue (setValue fleet
       4 NODE_URL (CStr ''https://a.example''))
       5 NODE_URL (CStr '' https://b.example ''))
       6 NODE_URL (CStr ''https://c.example''))
       7 NODE_URL (CStr ''https://d.example'')"

definition fleet_sheet_off :: world where
  "fleet_sheet_off = setValue fleet_sheet 7 DISABLED (CStr DISABLED_MARK)"

text \<open>A pass over two nodes, one of which reports chain height 0; a sheet whose first
  node answers 503 and still holds the height 2000 of an earlier pass, beside a node now
  at height 1000; and the fleet with its threshold set to 0.\<close>

definition stalled_env :: env where
  "stalled_env = example_env\<lparr>chainEndpoint := (\<lambda>u.
      if u = ''https://z.example'' then ChainResponse 200 (ChainHeightField ''0'')
      else ChainResponse 200 (ChainHeightField ''1000''))\<rparr>"

definition stalled_sheet :: world where
  "stalled_sheet =
     setValue (setValue (setValue empty_sheet 1 7 (CNum 50))
       4 NODE_URL (CStr ''https://a.example''))
       5 NODE_URL (CStr ''https://z.example'')"

definition stale_sheet :: world where
  "stale_sheet =
     setValue (setValue (setValue (setValue empty_sheet 1 7 (CNum 50))
       4 NODE_URL (CStr ''https://down.example''))
       4 BLOCK_HEIGHT (CNum 2000))
       5 NODE_URL (CStr ''https://fine.example'')"

definition unset_fleet :: world where
  "unset_fleet = setValue fleet 1 7 (CNum 0)"

section \<open>Supporting lemmas\<close>

subsection \<open>Cells written by each operation\<close>

lemma cells_setValue [simp]:
  "cells (setValue w r c v) r' c' = (if r' = r \<and> c' = c then v else cells w r' c')"
  by (simp add: setValue_def)

lemma ticks_setValue [simp]: "ticks (setValue w r c v) = ticks w"
  by (simp add: setValue_def)

lemma trace_setValue [simp]: "trace (setValue w r c v) = trace w"
  by (simp add: setValue_def)

lemma cells_setNodeError:
  "cells (setNodeError e w r s t) r' c' =
     (if r' = r \<and> c' = STATUS then CStr s
      else if r' = r \<and> c' = ERROR_TYPE then CStr t
      else if r' = r \<and> c' = ERROR_DETECTED \<and> \<not> truthy (cells w r ERROR_DETECTED)
        then CDate (clock e (ticks w))
      else cells w r' c')"
  by (simp add: setNodeError_def Let_def getValue_def newDate_def COLUMN_MAPPING)

lemma trace_setNodeError [simp]: "trace (setNodeError e w r s t) = trace w"
  by (simp add: setNodeError_def Let_def getValue_def newDate_def)

lemma cells_sendRecoveryNotification [simp]:
  "cells (sendRecoveryNotification e w u) = cells w"
  by (simp add: sendRecoveryNotification_def Let_def newDate_def)

lemma cells_clearNodeError:
  "cells (clearNodeError e w r) r' c' =
     (if r' = r \<and> c' = STATUS then CStr RUNNING
      else if r' = r \<and> c' \<in> {ERROR_TYPE, ERROR_DETECTED, LAST_NOTIFIED} then blank
      else cells w r' c')"
  by (auto simp: clearNodeError_def Let_def getValue_def COLUMN_MAPPING)

lemma cells_clearHealthData:
  "cells (clearHealthData w r) r' c' =
     (if r' = r \<and> c' \<in> {DB, API, BLOCK_HEIGHT} then blank else cells w r' c')"
  by (auto simp: clearHealthData_def Let_def COLUMN_MAPPING)

subsection \<open>The relation between status, error kind and timestamps\<close>

lemma truthy_not_blank: "truthy c \<Longrightarrow> c \<noteq> blank"
  by (cases c) auto

lemma node_invariant_setNodeError:
  "s \<noteq> RUNNING \<Longrightarrow> t \<noteq> [] \<Longrightarrow> node_invariant (setNodeError e w r s t) r"
  by (auto simp: node_invariant_def getValue_def cells_setNodeError COLUMN_MAPPING dest: truthy_not_blank)

lemma node_invariant_clearNodeError: "node_invariant (clearNodeError e w r) r"
  by (simp add: node_invariant_def getValue_def cells_clearNodeError COLUMN_MAPPING)

lemma node_invariant_cong:
  "(\<And>c. c \<in> {STATUS, ERROR_TYPE, ERROR_DETECTED, LAST_NOTIFIED} \<Longrightarrow> cells w' r c = cells w r c)
    \<Longrightarrow> node_invariant w' r = node_invariant w r"
  by (simp add: node_invariant_def getValue_def)

lemma node_invariant_setNodeError_other:
  "r' \<noteq> r \<Longrightarrow> node_invariant (setNodeError e w r s t) r' = node_invariant w r'"
  by (rule node_invariant_cong) (simp add: cells_setNodeError)

subsection \<open>Probing one node\<close>

lemma decimal_not_Nil: "decimal n \<noteq> []"
  by (subst decimal.simps) simp

lemma monitorNode_transport_error:
  "is_transport_error (checkNodeHealth e u) \<Longrightarrow> monitorNode e w r u = w"
  by (simp add: monitorNode_def is_transport_error_def Let_def)

lemma transport_error_non200:
  "healthEndpoint e u = HealthResponse code body \<Longrightarrow> code \<noteq> 200 \<Longrightarrow>
   is_transport_error (checkNodeHealth e u)"
  by (simp add: checkNodeHealth_def is_transport_error_def decimal_not_Nil)

lemma transport_error_throws:
  "healthEndpoint e u = HealthThrows err \<Longrightarrow> err \<noteq> [] \<Longrightarrow>
   \<not> str_includes err ''timeout'' \<Longrightarrow> \<not> str_includes err ''Timeout'' \<Longrightarrow>
   \<not> str_includes err ''certificate'' \<Longrightarrow> \<not> str_includes err ''SSL'' \<Longrightarrow>
   \<not> str_includes err ''TLS'' \<Longrightarrow>
   is_transport_error (checkNodeHealth e u)"
  by (simp add: checkNodeHealth_def is_transport_error_def health_catch_def)

lemma cells_monitorNode_other:
  "r' \<noteq> r \<Longrightarrow> cells (monitorNode e w r u) r' c = cells w r' c"
  by (simp add: monitorNode_def Let_def cells_setNodeError cells_clearNodeError
      cells_clearHealthData split: option.splits)

lemma node_invariant_monitorNode_establish:
  "\<not> is_transport_error (checkNodeHealth e u) \<Longrightarrow> node_invariant (monitorNode e w r u) r"
proof -
  assume a: "\<not> is_transport_error (checkNodeHealth e u)"
  have err: "node_invariant (clearHealthData (setNodeError e w r s t) r) r"
    if "s \<noteq> RUNNING" "t \<noteq> []" for s t
  proof -
    have "node_invariant (clearHealthData (setNodeError e w r s t) r) r
          = node_invariant (setNodeError e w r s t) r"
      by (rule node_invariant_cong) (auto simp: cells_clearHealthData COLUMN_MAPPING)
    with that show ?thesis by (simp add: node_invariant_setNodeError)
  qed
  show ?thesis
    using a
    by (auto simp: monitorNode_def Let_def is_transport_error_def err
        node_invariant_setNodeError node_invariant_clearNodeError STATUS_TYPES ERROR_TYPES
        split: option.splits)
qed

lemma node_invariant_monitorNode:
  "node_invariant w r' \<Longrightarrow> node_invariant (monitorNode e w r u) r'"
proof (cases "r' = r")
  case False
  assume "node_invariant w r'"
  moreover have "node_invariant (monitorNode e w r u) r' = node_invariant w r'"
    by (rule node_invariant_cong) (simp add: cells_monitorNode_other False)
  ultimately show ?thesis by simp
next
  case True
  assume inv: "node_invariant w r'"
  show ?thesis
  proof (cases "is_transport_error (checkNodeHealth e u)")
    case True
    with inv show ?thesis by (simp add: monitorNode_transport_error)
  next
    case False
    with \<open>r' = r\<close> show ?thesis by (simp add: node_invariant_monitorNode_establish)
  qed
qed

subsection \<open>The flagging loop of the detector\<close>

lemma flagDelayed_Nil [simp]: "flagDelayed e m w [] = w"
  by (simp add: flagDelayed_def)

lemma flagDelayed_Cons:
  "flagDelayed e m w (n # ns) =
     flagDelayed e m (if lagging w m (row n) then setNodeError e w (row n) DELAY BLOCK_DELAY else w) ns"
  by (simp add: flagDelayed_def lagging_def Let_def)

lemma lagging_setNodeError [simp]:
  "lagging (setNodeError e w r s t) m r' = lagging w m r'"
  by (simp add: lagging_def getValue_def cells_setNodeError COLUMN_MAPPING)

lemma cells_flagDelayed_unflagged:
  "\<not> (r \<in> row ` set ns \<and> lagging w m r) \<Longrightarrow> cells (flagDelayed e m w ns) r c = cells w r c"
proof (induction ns arbitrary: w)
  case Nil
  show ?case by simp
next
  case (Cons n ns)
  let ?w1 = "if lagging w m (row n) then setNodeError e w (row n) DELAY BLOCK_DELAY else w"
  have l: "lagging ?w1 m r = lagging w m r" by simp
  from Cons.prems have "\<not> (r \<in> row ` set ns \<and> lagging ?w1 m r)"
    unfolding l by auto
  then have "cells (flagDelayed e m ?w1 ns) r c = cells ?w1 r c" by (rule Cons.IH)
  moreover from Cons.prems have "cells ?w1 r c = cells w r c"
    by (auto simp: cells_setNodeError)
  ultimately show ?case by (simp only: flagDelayed_Cons)
qed

lemma cells_flagDelayed_frame:
  "c \<notin> {STATUS, ERROR_TYPE, ERROR_DETECTED} \<Longrightarrow> cells (flagDelayed e m w ns) r c = cells w r c"
proof (induction ns arbitrary: w)
  case Nil
  show ?case by simp
next
  case (Cons n ns)
  then show ?case by (simp add: flagDelayed_Cons cells_setNodeError)
qed

lemma cells_flagDelayed_detected_kept:
  "truthy (cells w r ERROR_DETECTED) \<Longrightarrow>
   cells (flagDelayed e m w ns) r ERROR_DETECTED = cells w r ERROR_DETECTED"
proof (induction ns arbitrary: w)
  case Nil
  show ?case by simp
next
  case (Cons n ns)
  let ?w1 = "if lagging w m (row n) then setNodeError e w (row n) DELAY BLOCK_DELAY else w"
  have same: "cells ?w1 r ERROR_DETECTED = cells w r ERROR_DETECTED"
    using Cons.prems by (auto simp: cells_setNodeError COLUMN_MAPPING)
  with Cons.prems have "truthy (cells ?w1 r ERROR_DETECTED)" by simp
  then have "cells (flagDelayed e m ?w1 ns) r ERROR_DETECTED = cells ?w1 r ERROR_DETECTED"
    by (rule Cons.IH)
  with same show ?case by (simp only: flagDelayed_Cons)
qed

lemma cells_flagDelayed_flagged:
  "r \<in> row ` set ns \<Longrightarrow> lagging w m r \<Longrightarrow>
   cells (flagDelayed e m w ns) r STATUS = CStr DELAY \<and>
   cells (flagDelayed e m w ns) r ERROR_TYPE = CStr BLOCK_DELAY \<and>
   truthy (cells (flagDelayed e m w ns) r ERROR_DETECTED)"
proof (induction ns arbitrary: w)
  case Nil
  then show ?case by simp
next
  case (Cons n ns)
  let ?w1 = "if lagging w m (row n) then setNodeError e w (row n) DELAY BLOCK_DELAY else w"
  have l: "lagging ?w1 m r" using Cons.prems(2) by simp
  show ?case
  proof (cases "r \<in> row ` set ns")
    case True
    from Cons.IH[OF True l] show ?thesis by (simp only: flagDelayed_Cons)
  next
    case False
    with Cons.prems have rn: "row n = r" by auto
    have same: "cells (flagDelayed e m ?w1 ns) r c = cells ?w1 r c" for c
      by (rule cells_flagDelayed_unflagged) (simp add: False)
    have "cells ?w1 r STATUS = CStr DELAY \<and> cells ?w1 r ERROR_TYPE = CStr BLOCK_DELAY
          \<and> truthy (cells ?w1 r ERROR_DETECTED)"
      using Cons.prems(2) rn by (simp add: cells_setNodeError COLUMN_MAPPING)
    then show ?thesis by (simp only: flagDelayed_Cons same)
  qed
qed

lemma cells_flagDelayed_detected_date:
  "r \<in> row ` set ns \<Longrightarrow> lagging w m r \<Longrightarrow> \<not> truthy (cells w r ERROR_DETECTED) \<Longrightarrow>
   \<exists>d. cells (flagDelayed e m w ns) r ERROR_DETECTED = CDate d"
proof (induction ns arbitrary: w)
  case Nil
  then show ?case by simp
next
  case (Cons n ns)
  let ?w1 = "if lagging w m (row n) then setNodeError e w (row n) DELAY BLOCK_DELAY else w"
  have l: "lagging ?w1 m r" using Cons.prems(2) by simp
  show ?case
  proof (cases "row n = r")
    case True
    then have d: "cells ?w1 r ERROR_DETECTED = CDate (clock e (ticks w))"
      using Cons.prems by (simp add: cells_setNodeError COLUMN_MAPPING)
    then have "truthy (cells ?w1 r ERROR_DETECTED)" by simp
    then have "cells (flagDelayed e m ?w1 ns) r ERROR_DETECTED = cells ?w1 r ERROR_DETECTED"
      by (rule cells_flagDelayed_detected_kept)
    with d show ?thesis by (simp only: flagDelayed_Cons) blast
  next
    case False
    with Cons.prems have mem: "r \<in> row ` set ns" by auto
    have nd: "\<not> truthy (cells ?w1 r ERROR_DETECTED)"
      using Cons.prems(3) False by (simp add: cells_setNodeError)
    from Cons.IH[OF mem l nd] show ?thesis by (simp only: flagDelayed_Cons)
  qed
qed

subsection \<open>The maximum of the stored heights\<close>

lemma storedHeights_Nil [simp]: "storedHeights w [] = []"
  by (simp add: storedHeights_def)

lemma heightsNumeric_Cons:
  "heightsNumeric w (n # ns) =
     ((cells w (row n) BLOCK_HEIGHT = blank \<or> (\<exists>h. cells w (row n) BLOCK_HEIGHT = CNum h))
      \<and> heightsNumeric w ns)"
  by (auto simp: heightsNumeric_def getValue_def split: cell.splits)

lemma heightsNumeric_iff:
  "heightsNumeric w ns =
     (\<forall>n\<in>set ns. cells w (row n) BLOCK_HEIGHT = blank \<or> (\<exists>h. cells w (row n) BLOCK_HEIGHT = CNum h))"
  by (induction ns) (simp_all add: heightsNumeric_Cons, simp add: heightsNumeric_def)

lemma maxHeight_fold:
  "heightsNumeric w ns \<Longrightarrow> 0 \<le> a \<Longrightarrow>
   foldl (\<lambda>maxHeight n.
            let h = getValue w (row n) BLOCK_HEIGHT
            in if truthy h \<and> js_gt (to_number h) (to_number maxHeight) then h else maxHeight)
         (CNum a) ns
   = CNum (Max (insert a (set (storedHeights w ns))))"
proof (induction ns arbitrary: a)
  case Nil
  show ?case by simp
next
  case (Cons n ns)
  from Cons.prems(1) have rest: "heightsNumeric w ns"
    and hd: "cells w (row n) BLOCK_HEIGHT = blank \<or> (\<exists>h. cells w (row n) BLOCK_HEIGHT = CNum h)"
    by (simp_all add: heightsNumeric_Cons)
  from hd show ?case
  proof
    assume b: "cells w (row n) BLOCK_HEIGHT = blank"
    then have k: "storedHeights w (n # ns) = storedHeights w ns"
      by (simp add: storedHeights_def getValue_def)
    show ?thesis
      using Cons.IH[OF rest Cons.prems(2)] b by (simp add: k getValue_def)
  next
    assume "\<exists>h. cells w (row n) BLOCK_HEIGHT = CNum h"
    then obtain h where h: "cells w (row n) BLOCK_HEIGHT = CNum h" by blast
    have k: "storedHeights w (n # ns) = h # storedHeights w ns"
      using h by (simp add: storedHeights_def getValue_def)
    have m: "0 \<le> max a h" using Cons.prems(2) by simp
    have step: "(let x = getValue w (row n) BLOCK_HEIGHT
                 in if truthy x \<and> js_gt (to_number x) (to_number (CNum a)) then x else CNum a)
                = CNum (max a h)"
      using h Cons.prems(2) by (auto simp: getValue_def max_def)
    have "Max (insert a (set (storedHeights w (n # ns))))
          = Max (insert (max a h) (set (storedHeights w ns)))"
      unfolding k
      by (cases "set (storedHeights w ns) = {}") (simp_all add: max.assoc)
    with Cons.IH[OF rest m] step show ?thesis by simp
  qed
qed

lemma maxHeightOf_stored:
  "heightsNumeric w ns \<Longrightarrow> maxHeightOf w ns = CNum (Max (set (0 # storedHeights w ns)))"
  unfolding maxHeightOf_def by (simp add: maxHeight_fold)

lemma Max_stored_positive:
  "list_ex (\<lambda>h. 0 < h) hs \<Longrightarrow>
   Max (set (0 # hs)) = Max (set hs) \<and> (0::int) < Max (set hs)"
proof -
  assume "list_ex (\<lambda>h. 0 < h) hs"
  then obtain x where x: "x \<in> set hs" "0 < x" by (auto simp: list_ex_iff)
  then have pos: "0 < Max (set hs)" by (meson List.finite_set Max_ge less_le_trans)
  from x have "set hs \<noteq> {}" by auto
  then have "Max (insert 0 (set hs)) = max 0 (Max (set hs))" by simp
  with pos have "Max (insert 0 (set hs)) = Max (set hs)" by (simp add: max_def)
  with pos show ?thesis by (simp only: list.set)
qed

lemma Max_stored_none:
  "\<not> list_ex (\<lambda>h. 0 < h) hs \<Longrightarrow> Max (set (0 # hs)) = (0::int)"
proof -
  assume "\<not> list_ex (\<lambda>h. 0 < h) hs"
  then have le: "\<forall>x\<in>insert 0 (set hs). x \<le> 0" by (auto simp: list_ex_iff not_less)
  have "Max (insert 0 (set hs)) \<le> 0"
    by (subst Max_le_iff) (use le in auto)
  moreover have "0 \<le> Max (insert 0 (set hs))"
    by (rule Max_ge) auto
  ultimately have "Max (insert 0 (set hs)) = 0" by (rule antisym)
  then show ?thesis by (simp only: list.set)
qed

lemma maxHeightOf_none:
  "heightsNumeric w ns \<Longrightarrow> \<not> list_ex (\<lambda>h. 0 < h) (storedHeights w ns) \<Longrightarrow>
   maxHeightOf w ns = CNum 0"
proof -
  assume a: "heightsNumeric w ns" and b: "\<not> list_ex (\<lambda>h. 0 < h) (storedHeights w ns)"
  from maxHeightOf_stored[OF a] Max_stored_none[OF b] show ?thesis by (simp only:)
qed

lemma maxHeightOf_positive:
  "heightsNumeric w ns \<Longrightarrow> list_ex (\<lambda>h. 0 < h) (storedHeights w ns) \<Longrightarrow>
   maxHeightOf w ns = CNum (Max (set (storedHeights w ns))) \<and>
   0 < Max (set (storedHeights w ns))"
proof -
  assume a: "heightsNumeric w ns" and b: "list_ex (\<lambda>h. 0 < h) (storedHeights w ns)"
  from maxHeightOf_stored[OF a] Max_stored_positive[OF b] show ?thesis by (simp only:)
qed

lemma checkBlockDelay_no_action:
  "heightsNumeric w nodes \<Longrightarrow>
   \<not> list_ex (\<lambda>h. 0 < h) (storedHeights w nodes) \<or> \<not> truthy (getValue w 1 7) \<Longrightarrow>
   checkBlockDelay e w nodes = w"
  by (auto simp: checkBlockDelay_def Let_def maxHeightOf_none)

lemma checkBlockDelay_flagging:
  assumes rec: "heightsNumeric w nodes"
    and known: "list_ex (\<lambda>h. 0 < h) (storedHeights w nodes)"
    and thr: "getValue w 1 7 = CNum t" "t \<noteq> 0"
  shows "checkBlockDelay e w nodes
         = flagDelayed e (Some (Max (set (storedHeights w nodes)) - t)) w nodes"
proof -
  from maxHeightOf_positive[OF rec known]
  have "maxHeightOf w nodes = CNum (Max (set (storedHeights w nodes)))"
    and "0 < Max (set (storedHeights w nodes))"
    by simp_all
  with thr show ?thesis by (simp add: checkBlockDelay_def Let_def)
qed

lemma checkBlockDelay_Code_flagging:
  "getValue w 1 3 = CNum M \<Longrightarrow> M \<noteq> 0 \<Longrightarrow> getValue w 1 7 = CNum t \<Longrightarrow> t \<noteq> 0 \<Longrightarrow>
   checkBlockDelay_Code e w nodes = flagDelayed e (Some (M - t)) w nodes"
  by (simp add: checkBlockDelay_Code_def Let_def)

lemma checkBlockDelay_Code_no_action:
  "\<not> truthy (getValue w 1 3) \<or> \<not> truthy (getValue w 1 7) \<Longrightarrow>
   checkBlockDelay_Code e w nodes = w"
  by (auto simp: checkBlockDelay_Code_def Let_def)

lemma lagging_flaggable:
  "heightsNumeric w nodes \<Longrightarrow> r \<in> row ` set nodes \<Longrightarrow>
   lagging w (Some bound) r = flaggable w nodes bound r"
proof -
  assume "heightsNumeric w nodes" and mem: "r \<in> row ` set nodes"
  then have "cells w r BLOCK_HEIGHT = blank \<or> (\<exists>h. cells w r BLOCK_HEIGHT = CNum h)"
    by (auto simp: heightsNumeric_iff)
  with mem show ?thesis
    by (auto simp: lagging_def flaggable_def getValue_def)
qed

text \<open>What the flagging loop does to each row, for a sheet whose listed heights are
  numbers or blank.\<close>

lemma flagDelayed_rows:
  assumes "heightsNumeric w nodes"
  shows "if flaggable w nodes bound r
         then getValue (flagDelayed e (Some bound) w nodes) r STATUS = CStr DELAY \<and>
              getValue (flagDelayed e (Some bound) w nodes) r ERROR_TYPE = CStr BLOCK_DELAY \<and>
              (if truthy (getValue w r ERROR_DETECTED)
               then getValue (flagDelayed e (Some bound) w nodes) r ERROR_DETECTED
                    = getValue w r ERROR_DETECTED
               else \<exists>d. getValue (flagDelayed e (Some bound) w nodes) r ERROR_DETECTED = CDate d) \<and>
              (\<forall>c. c \<notin> {STATUS, ERROR_TYPE, ERROR_DETECTED} \<longrightarrow>
                   getValue (flagDelayed e (Some bound) w nodes) r c = getValue w r c)
         else \<forall>c. getValue (flagDelayed e (Some bound) w nodes) r c = getValue w r c"
proof (cases "flaggable w nodes bound r")
  case True
  let ?m = "Some bound"
  from True have mem: "r \<in> row ` set nodes" by (simp add: flaggable_def)
  with True have l: "lagging w ?m r" by (simp add: lagging_flaggable[OF assms])
  from cells_flagDelayed_flagged[OF mem l]
  have f: "cells (flagDelayed e ?m w nodes) r STATUS = CStr DELAY"
      "cells (flagDelayed e ?m w nodes) r ERROR_TYPE = CStr BLOCK_DELAY" by simp_all
  have d: "if truthy (cells w r ERROR_DETECTED)
           then cells (flagDelayed e ?m w nodes) r ERROR_DETECTED = cells w r ERROR_DETECTED
           else \<exists>d. cells (flagDelayed e ?m w nodes) r ERROR_DETECTED = CDate d"
    using cells_flagDelayed_detected_kept cells_flagDelayed_detected_date[OF mem l] by simp
  from True f d show ?thesis
    by (simp add: getValue_def cells_flagDelayed_frame)
next
  case False
  have "\<not> (r \<in> row ` set nodes \<and> lagging w (Some bound) r)"
    using False lagging_flaggable[OF assms] by auto
  then have "cells (flagDelayed e (Some bound) w nodes) r c = cells w r c" for c
    by (rule cells_flagDelayed_unflagged)
  with False show ?thesis by (simp add: getValue_def)
qed

text \<open>A probe writes a number or nothing into the height cell, so the heights stay
  numbers or blank along the probes of a pass.\<close>

lemma height_cell_monitorNode:
  "cells w r' BLOCK_HEIGHT = blank \<or> (\<exists>h. cells w r' BLOCK_HEIGHT = CNum h) \<Longrightarrow>
   cells (monitorNode e w r u) r' BLOCK_HEIGHT = blank
   \<or> (\<exists>h. cells (monitorNode e w r u) r' BLOCK_HEIGHT = CNum h)"
  by (auto simp: monitorNode_def Let_def cells_setNodeError cells_clearNodeError
      cells_clearHealthData COLUMN_MAPPING split: option.splits)

lemma heightsNumeric_monitorNode:
  "heightsNumeric w ns \<Longrightarrow> heightsNumeric (monitorNode e w r u) ns"
  unfolding heightsNumeric_iff using height_cell_monitorNode by blast

lemma heightsNumeric_monitorAll:
  "heightsNumeric w ns \<Longrightarrow> heightsNumeric (monitorAll e w ms) ns"
  unfolding monitorAll_def
  by (induction ms arbitrary: w) (simp_all add: heightsNumeric_monitorNode)

subsection \<open>Stamping and dispatch\<close>

lemma cells_stampNotified:
  "cells (stampNotified now w ts) r c =
     (if c = LAST_NOTIFIED \<and> r \<in> row ` set ts then CDate now else cells w r c)"
  unfolding stampNotified_def
  by (induction ts arbitrary: w) auto

lemma ticks_stampNotified [simp]: "ticks (stampNotified now w ts) = ticks w"
  unfolding stampNotified_def by (induction ts arbitrary: w) auto

lemma trace_stampNotified [simp]: "trace (stampNotified now w ts) = trace w"
  unfolding stampNotified_def by (induction ts arbitrary: w) auto

lemma cells_sendNotification:
  "cells (world_of (sendNotification e w ts)) r c =
     (if dispatched ts \<and> c = LAST_NOTIFIED \<and> r \<in> row ` set ts
      then CDate (clock e (ticks w)) else cells w r c)"
  by (simp add: sendNotification_def newDate_def Let_def dispatched_def cells_stampNotified
      split: sum.splits)

lemma sendNotification_Returns:
  "dispatched ts \<Longrightarrow> \<exists>w'. sendNotification e w ts = Returns w'"
  by (simp add: sendNotification_def newDate_def Let_def dispatched_def split: sum.splits)

lemma sendNotification_Throws:
  "\<not> dispatched ts \<Longrightarrow>
   sendNotification e w ts = Throws TypeError (w\<lparr>ticks := Suc (ticks w)\<rparr>)"
  by (auto simp: sendNotification_def newDate_def Let_def dispatched_def split: sum.splits
      intro: js_error.exhaust)

lemma trace_sendNotification:
  "trace (world_of (sendNotification e w ts)) =
     (if dispatched ts
      then trace w @ [Dispatch (Alert ts)
             ((if \<not> checkSlackConfiguration e then sendEmail e (length (trace w)) else [])
              @ sendSlackNotification e (length (trace w)))]
      else trace w)"
  by (simp add: sendNotification_def newDate_def Let_def dispatched_def split: sum.splits)

lemma notificationTargets_cells:
  "cells w' = cells w \<Longrightarrow> notificationTargets w' now ns = notificationTargets w now ns"
  by (induction ns) (simp_all add: getValue_def Let_def)

lemma notificationTargets_mem:
  "t \<in> set (notificationTargets w now ns) \<Longrightarrow>
   row t \<in> row ` set ns \<and> status t = cells w (row t) STATUS \<and> status t \<noteq> CStr RUNNING"
  by (induction ns) (auto simp: Let_def getValue_def split: if_splits)

lemma cells_processNotifications:
  "cells (world_of (processNotifications e w ns)) r c =
     (if dispatched (notificationTargets w (clock e (ticks w)) ns) \<and> c = LAST_NOTIFIED \<and>
         r \<in> row ` set (notificationTargets w (clock e (ticks w)) ns)
      then CDate (clock e (Suc (ticks w))) else cells w r c)"
proof -
  let ?w1 = "w\<lparr>ticks := Suc (ticks w)\<rparr>"
  have t: "notificationTargets ?w1 (clock e (ticks w)) ns = notificationTargets w (clock e (ticks w)) ns"
    by (rule notificationTargets_cells) simp
  show ?thesis
    by (simp add: processNotifications_def newDate_def Let_def t cells_sendNotification)
qed

lemma node_invariant_processNotifications:
  assumes "node_invariant w r"
  shows "node_invariant (world_of (processNotifications e w ns)) r"
proof (cases "dispatched (notificationTargets w (clock e (ticks w)) ns) \<and>
         r \<in> row ` set (notificationTargets w (clock e (ticks w)) ns)")
  case True
  then obtain t where "t \<in> set (notificationTargets w (clock e (ticks w)) ns)" "row t = r" by auto
  then have "cells w r STATUS \<noteq> CStr RUNNING" using notificationTargets_mem by metis
  with assms True show ?thesis
    by (auto simp: node_invariant_def getValue_def cells_processNotifications COLUMN_MAPPING)
next
  case False
  have "node_invariant (world_of (processNotifications e w ns)) r = node_invariant w r"
    by (rule node_invariant_cong) (use False in \<open>auto simp: cells_processNotifications\<close>)
  with assms show ?thesis by simp
qed

subsection \<open>The relation along a pass\<close>

lemma node_invariant_flagDelayed:
  "node_invariant w r \<Longrightarrow> node_invariant (flagDelayed e m w ns) r"
proof (induction ns arbitrary: w)
  case Nil
  then show ?case by simp
next
  case (Cons n ns)
  let ?w1 = "if lagging w m (row n) then setNodeError e w (row n) DELAY BLOCK_DELAY else w"
  have "node_invariant ?w1 r"
  proof (cases "lagging w m (row n) \<and> row n = r")
    case True
    have "node_invariant (setNodeError e w r DELAY BLOCK_DELAY) r"
      by (rule node_invariant_setNodeError) (simp_all add: STATUS_TYPES ERROR_TYPES)
    with True show ?thesis by auto
  next
    case False
    with Cons.prems show ?thesis by (auto simp: node_invariant_setNodeError_other)
  qed
  then have "node_invariant (flagDelayed e m ?w1 ns) r" by (rule Cons.IH)
  then show ?case by (simp only: flagDelayed_Cons)
qed

lemma node_invariant_checkBlockDelay:
  "node_invariant w r \<Longrightarrow> node_invariant (checkBlockDelay e w ns) r"
  by (simp add: checkBlockDelay_def Let_def node_invariant_flagDelayed)

lemma node_invariant_monitorAll:
  "node_invariant w r \<Longrightarrow> node_invariant (monitorAll e w ns) r"
  unfolding monitorAll_def
  by (induction ns arbitrary: w) (simp_all add: node_invariant_monitorNode)

lemma node_invariant_processSheet:
  "node_invariant w r \<Longrightarrow> node_invariant (world_of (processSheet ds e w lastRow en)) r"
  by (simp add: processSheet_def Let_def node_invariant_monitorAll node_invariant_checkBlockDelay
      node_invariant_processNotifications)

subsection \<open>Cells of the probed row\<close>

lemma cells_monitorNode_detected:
  "cells (monitorNode e w r u) r ERROR_DETECTED =
     (if is_recovered (checkNodeHealth e u) then blank
      else if is_transport_error (checkNodeHealth e u) \<or> truthy (cells w r ERROR_DETECTED)
        then cells w r ERROR_DETECTED
      else CDate (clock e (ticks w)))"
  by (auto simp: monitorNode_def Let_def is_recovered_def is_transport_error_def is_healthy_def
      cells_setNodeError cells_clearNodeError cells_clearHealthData COLUMN_MAPPING
      split: option.splits)

lemma cells_monitorNode_errorType:
  "cells (monitorNode e w r u) r ERROR_TYPE =
     (if timeout (checkNodeHealth e u) then CStr TIMEOUT
      else if sslError (checkNodeHealth e u) then CStr SSL_CERT
      else if is_transport_error (checkNodeHealth e u) then cells w r ERROR_TYPE
      else if is_degraded (checkNodeHealth e u) then CStr DB_API
      else blank)"
  by (auto simp: monitorNode_def Let_def is_degraded_def is_transport_error_def is_healthy_def
      cells_setNodeError cells_clearNodeError cells_clearHealthData COLUMN_MAPPING
      split: option.splits)

lemma cells_monitorNode_status:
  "cells (monitorNode e w r u) r STATUS =
     (if timeout (checkNodeHealth e u) \<or> sslError (checkNodeHealth e u) then CStr ERROR
      else if is_transport_error (checkNodeHealth e u) then cells w r STATUS
      else if is_degraded (checkNodeHealth e u) then CStr ERROR
      else CStr RUNNING)"
  by (auto simp: monitorNode_def Let_def is_degraded_def is_transport_error_def is_healthy_def
      cells_setNodeError cells_clearNodeError cells_clearHealthData COLUMN_MAPPING
      split: option.splits)

lemma cells_checkBlockDelay_detected_kept:
  "truthy (cells w r ERROR_DETECTED) \<Longrightarrow>
   cells (checkBlockDelay e w ns) r ERROR_DETECTED = cells w r ERROR_DETECTED"
  by (simp add: checkBlockDelay_def Let_def cells_flagDelayed_detected_kept)

lemma cells_processNotifications_other:
  "c \<noteq> LAST_NOTIFIED \<Longrightarrow> cells (world_of (processNotifications e w ns)) r c = cells w r c"
  by (simp add: cells_processNotifications)

lemma node_invariant_checkBlockDelay_flagged:
  assumes "truthy (maxHeightOf w ns)" "truthy (getValue w 1 7)" "r \<in> row ` set ns"
    "lagging w (js_minus (to_number (maxHeightOf w ns)) (to_number (getValue w 1 7))) r"
  shows "node_invariant (checkBlockDelay e w ns) r"
proof -
  let ?m = "js_minus (to_number (maxHeightOf w ns)) (to_number (getValue w 1 7))"
  have eq: "checkBlockDelay e w ns = flagDelayed e ?m w ns"
    using assms(1,2) by (simp add: checkBlockDelay_def Let_def)
  from cells_flagDelayed_flagged[OF assms(3,4), of e] show ?thesis
    by (auto simp: eq node_invariant_def getValue_def STATUS_TYPES ERROR_TYPES
        dest: truthy_not_blank)
qed

subsection \<open>The example rows and the batch of the scheduler\<close>

lemma erring_row_cells:
  "getValue erring_row 4 STATUS = CStr ERROR"
  "getValue erring_row 4 ERROR_TYPE = CStr TIMEOUT"
  "getValue erring_row 4 ERROR_DETECTED = CDate 1699999000000"
  "getValue erring_row 4 LAST_NOTIFIED = CDate 1699999100000"
  "getValue erring_row 4 BLOCK_HEIGHT = CNum 500"
  "getValue erring_row 4 NODE_URL = CStr ''https://down.example''"
  by (simp_all add: erring_row_def getValue_def COLUMN_MAPPING)

lemma example_outcomes:
  "timeout (checkNodeHealth example_env ''https://slow.example'')"
  "\<not> timeout (checkNodeHealth example_env ''https://tls.example'')"
  "sslError (checkNodeHealth example_env ''https://tls.example'')"
  "is_transport_error (checkNodeHealth example_env ''https://down.example'')"
  "is_degraded (checkNodeHealth example_env ''https://half.example'')"
  "is_recovered (checkNodeHealth example_env ''https://fine.example'')"
  by (simp_all add: checkNodeHealth_def example_env_def health_catch_def is_transport_error_def
      is_degraded_def is_recovered_def is_healthy_def decimal_not_Nil)

lemma shouldNotify_due:
  "timestampOrBlank c \<Longrightarrow> shouldNotify now c = due now c"
  by (cases c) (auto simp: timestampOrBlank_def shouldNotify_def due_def NOTIFICATION_INTERVAL_def)

lemma notificationTargets_filter:
  "map (\<lambda>t. (row t, url t)) (notificationTargets w now nodes) =
   map (\<lambda>n. (row n, url n))
     (filter (\<lambda>n. getValue w (row n) STATUS \<noteq> CStr RUNNING \<and>
                   shouldNotify now (getValue w (row n) LAST_NOTIFIED)) nodes)"
  by (induction nodes) (simp_all add: Let_def)

lemma trace_processNotifications:
  "trace (world_of (processNotifications e w ns)) =
     (if notificationTargets w (clock e (ticks w)) ns \<noteq> [] \<and>
         dispatched (notificationTargets w (clock e (ticks w)) ns)
      then trace w @ [Dispatch (Alert (notificationTargets w (clock e (ticks w)) ns))
             ((if \<not> checkSlackConfiguration e then sendEmail e (length (trace w)) else [])
              @ sendSlackNotification e (length (trace w)))]
      else trace w)"
proof -
  let ?w1 = "w\<lparr>ticks := Suc (ticks w)\<rparr>"
  have t: "notificationTargets ?w1 (clock e (ticks w)) ns = notificationTargets w (clock e (ticks w)) ns"
    by (rule notificationTargets_cells) simp
  show ?thesis
    by (simp add: processNotifications_def newDate_def Let_def t trace_sendNotification)
qed

lemma trace_sendRecoveryNotification:
  "trace (sendRecoveryNotification e w u) =
     trace w @ [Dispatch (Recovery u)
             ((if \<not> checkSlackConfiguration e then sendEmail e (length (trace w)) else [])
              @ sendSlackNotification e (length (trace w)))]"
  by (simp add: sendRecoveryNotification_def newDate_def Let_def)

lemma sendSlackNotification_unconfigured:
  "\<not> checkSlackConfiguration e \<Longrightarrow> sendSlackNotification e k = []"
  by (auto simp: checkSlackConfiguration_def sendSlackNotification_def Let_def)

lemma sendSlackNotification_configured:
  "checkSlackConfiguration e \<Longrightarrow>
   sendSlackNotification e k \<noteq> [] \<and> list_all (\<lambda>c. \<not> is_email c) (sendSlackNotification e k)"
  by (auto simp: checkSlackConfiguration_def sendSlackNotification_def Let_def)

lemma cells_with_record:
  "cells (with_record w r s t d n) r' c =
     (if r' = r \<and> c = STATUS then s else if r' = r \<and> c = ERROR_TYPE then t
      else if r' = r \<and> c = ERROR_DETECTED then d else if r' = r \<and> c = LAST_NOTIFIED then n
      else cells w r' c)"
  by (simp add: with_record_def COLUMN_MAPPING)

lemma alerting_now: "clock example_env 0 = 1700000000000" "clock example_env (Suc 0) = 1700000000001"
  by (simp_all add: example_env_def)

lemma alerting_targets_eval:
  "notificationTargets alerting 1700000000000 alerting_nodes = alerting_targets"
  by (simp add: alerting_nodes_def alerting_targets_def alerting_def getValue_def
      cells_with_record Let_def shouldNotify_def NOTIFICATION_INTERVAL_def COLUMN_MAPPING
      STATUS_TYPES)

lemma alerting_dispatched: "dispatched alerting_targets"
  by (simp add: dispatched_def alerting_targets_def)

lemma alerting_wf:
  "list_all (\<lambda>n. timestampOrBlank (getValue alerting (row n) LAST_NOTIFIED)) alerting_nodes"
  by (simp add: alerting_nodes_def alerting_def getValue_def cells_with_record
      timestampOrBlank_def COLUMN_MAPPING)

subsection \<open>Recovery and the chain height\<close>

lemma cells_monitorNode_lastNotified:
  "cells (monitorNode e w r u) r LAST_NOTIFIED =
     (if is_recovered (checkNodeHealth e u) then blank else cells w r LAST_NOTIFIED)"
  by (auto simp: monitorNode_def Let_def is_recovered_def is_healthy_def
      cells_setNodeError cells_clearNodeError cells_clearHealthData COLUMN_MAPPING
      split: option.splits)

lemma trace_clearNodeError:
  "trace (clearNodeError e w r) =
     (if truthy (cells w r LAST_NOTIFIED)
      then trace w @ [Dispatch (Recovery (cells w r NODE_URL)) (notifierCalls e (length (trace w)))]
      else trace w)"
  by (simp add: clearNodeError_def Let_def getValue_def trace_sendRecoveryNotification
      notifierCalls_def)

lemma trace_monitorNode:
  "trace (monitorNode e w r u) =
     (if is_recovered (checkNodeHealth e u) \<and> truthy (cells w r LAST_NOTIFIED)
      then trace w @ [Dispatch (Recovery (cells w r NODE_URL)) (notifierCalls e (length (trace w)))]
      else trace w)"
  by (auto simp: monitorNode_def Let_def is_recovered_def is_healthy_def trace_clearNodeError
      clearHealthData_def COLUMN_MAPPING split: option.splits)

lemma height_getChainHeight_of:
  "(height (getChainHeight_of f) = Some h) =
     (\<exists>s. f = ChainResponse 200 (ChainHeightField s) \<and> parseInt s = Some h)"
  by (cases f) (auto split: chain_body.splits)

lemma checkNodeHealth_chainEndpoint [simp]:
  "checkNodeHealth (e\<lparr>chainEndpoint := f\<rparr>) u = checkNodeHealth e u"
  by (simp add: checkNodeHealth_def)

lemma notifierCalls_chainEndpoint [simp]:
  "notifierCalls (e\<lparr>chainEndpoint := f\<rparr>) k = notifierCalls e k"
  by (simp add: notifierCalls_def checkSlackConfiguration_def sendEmail_def operatorEmail_def
      sendSlackNotification_def Let_def)

lemma cells_monitorNode_height:
  "cells (monitorNode e w r u) r BLOCK_HEIGHT =
     (if timeout (checkNodeHealth e u) \<or> sslError (checkNodeHealth e u) then blank
      else if is_transport_error (checkNodeHealth e u) then cells w r BLOCK_HEIGHT
      else case height (getChainHeight e u) of
             None \<Rightarrow> cells w r BLOCK_HEIGHT
           | Some h \<Rightarrow> CNum h)"
  by (auto simp: monitorNode_def Let_def is_transport_error_def
      cells_setNodeError cells_clearNodeError cells_clearHealthData COLUMN_MAPPING
      split: option.splits)

lemma cells_monitorNode_chain_independent:
  "(r', c) \<noteq> (r, BLOCK_HEIGHT) \<Longrightarrow>
   cells (monitorNode (e\<lparr>chainEndpoint := f\<rparr>) w r u) r' c = cells (monitorNode e w r u) r' c"
  by (auto simp: monitorNode_def Let_def cells_setNodeError cells_clearNodeError
      cells_clearHealthData COLUMN_MAPPING split: option.splits)

lemma trace_monitorNode_chain_independent:
  "trace (monitorNode (e\<lparr>chainEndpoint := f\<rparr>) w r u) = trace (monitorNode e w r u)"
  by (simp add: trace_monitorNode)

lemma parseInt_examples:
  "parseInt ''-5'' = Some (- 5)" "parseInt ''1000'' = Some 1000" "parseInt ''n/a'' = None"
  by (simp_all add: parseInt_def parse_unsigned_def parse_digits_def skip_spaces.simps
      space_len_def white_space_def is_digit_def digit_of_def digits_value_def)

subsection \<open>Falsy heights\<close>

lemma setValue_setValue [simp]:
  "setValue (setValue w r c v) r c v' = setValue w r c v'"
  by (simp add: setValue_def)

lemma setNodeError_setValue_height:
  "setNodeError e (setValue w r BLOCK_HEIGHT v) r' s t
   = setValue (setNodeError e w r' s t) r BLOCK_HEIGHT v"
proof -
  have ne: "(r, BLOCK_HEIGHT) \<noteq> (r', STATUS)" "(r, BLOCK_HEIGHT) \<noteq> (r', ERROR_TYPE)"
    "(r, BLOCK_HEIGHT) \<noteq> (r', ERROR_DETECTED)"
    by (simp_all add: COLUMN_MAPPING)
  have d: "cells (setValue w r BLOCK_HEIGHT v) r' ERROR_DETECTED = cells w r' ERROR_DETECTED"
    by (simp add: COLUMN_MAPPING)
  show ?thesis
    by (auto simp: setNodeError_def Let_def getValue_def newDate_def setValue_def d
        COLUMN_MAPPING fun_upd_twist intro!: world.equality ext)
qed

lemma flagDelayed_falsy_height:
  assumes "\<not> truthy v" "\<not> truthy v'"
  shows "flagDelayed e m (setValue w r BLOCK_HEIGHT v) ns
         = setValue (flagDelayed e m (setValue w r BLOCK_HEIGHT v') ns) r BLOCK_HEIGHT v"
proof (induction ns arbitrary: w)
  case Nil
  show ?case by simp
next
  case (Cons n ns)
  have l: "lagging (setValue w r BLOCK_HEIGHT v) m (row n)
           = lagging (setValue w r BLOCK_HEIGHT v') m (row n)"
    using assms by (auto simp: lagging_def getValue_def)
  show ?case
  proof (cases "lagging (setValue w r BLOCK_HEIGHT v') m (row n)")
    case True
    with l show ?thesis
      by (simp add: flagDelayed_Cons setNodeError_setValue_height Cons.IH)
  next
    case False
    with l show ?thesis by (simp add: flagDelayed_Cons Cons.IH)
  qed
qed

lemma maxHeight_fold_falsy:
  assumes "\<not> truthy v" "\<not> truthy v'"
  shows "maxHeightOf (setValue w r BLOCK_HEIGHT v) ns = maxHeightOf (setValue w r BLOCK_HEIGHT v') ns"
proof -
  have "foldl (\<lambda>maxHeight n.
            let h = getValue (setValue w r BLOCK_HEIGHT v) (row n) BLOCK_HEIGHT
            in if truthy h \<and> js_gt (to_number h) (to_number maxHeight) then h else maxHeight) a ns
      = foldl (\<lambda>maxHeight n.
            let h = getValue (setValue w r BLOCK_HEIGHT v') (row n) BLOCK_HEIGHT
            in if truthy h \<and> js_gt (to_number h) (to_number maxHeight) then h else maxHeight) a ns"
    for a
    using assms by (induction ns arbitrary: a) (auto simp: getValue_def Let_def)
  then show ?thesis by (simp add: maxHeightOf_def)
qed

lemma maxHeightOf_skip:
  assumes "\<not> truthy (getValue w r BLOCK_HEIGHT)"
  shows "maxHeightOf w ns = maxHeightOf w (filter (\<lambda>n. row n \<noteq> r) ns)"
proof -
  have "foldl (\<lambda>maxHeight n.
            let h = getValue w (row n) BLOCK_HEIGHT
            in if truthy h \<and> js_gt (to_number h) (to_number maxHeight) then h else maxHeight) a ns
      = foldl (\<lambda>maxHeight n.
            let h = getValue w (row n) BLOCK_HEIGHT
            in if truthy h \<and> js_gt (to_number h) (to_number maxHeight) then h else maxHeight) a
          (filter (\<lambda>n. row n \<noteq> r) ns)"
    for a
    using assms by (induction ns arbitrary: a) (auto simp: Let_def)
  then show ?thesis by (simp add: maxHeightOf_def)
qed

lemma checkBlockDelay_falsy_height:
  assumes "\<not> truthy v" "\<not> truthy v'"
  shows "checkBlockDelay e (setValue w r BLOCK_HEIGHT v) ns
         = setValue (checkBlockDelay e (setValue w r BLOCK_HEIGHT v') ns) r BLOCK_HEIGHT v"
proof -
  have thr: "truthy (getValue (setValue w r BLOCK_HEIGHT v) 1 7)
             = truthy (getValue (setValue w r BLOCK_HEIGHT v') 1 7)"
    "truthy (getValue (setValue w r BLOCK_HEIGHT v) 1 7) \<Longrightarrow>
       getValue (setValue w r BLOCK_HEIGHT v) 1 7 = getValue (setValue w r BLOCK_HEIGHT v') 1 7"
    using assms by (auto simp: getValue_def)
  show ?thesis
    using thr
    by (auto simp: checkBlockDelay_def Let_def maxHeight_fold_falsy[OF assms]
        flagDelayed_falsy_height[OF assms])
qed

lemma checkBlockDelay_Code_falsy_height_row:
  "\<not> truthy (cells w r BLOCK_HEIGHT) \<Longrightarrow> cells (checkBlockDelay_Code e w ns) r c = cells w r c"
  by (auto simp: checkBlockDelay_Code_def Let_def lagging_def getValue_def
      intro!: cells_flagDelayed_unflagged)

lemma checkBlockDelay_falsy_height_row:
  "\<not> truthy (cells w r BLOCK_HEIGHT) \<Longrightarrow> cells (checkBlockDelay e w ns) r c = cells w r c"
  by (auto simp: checkBlockDelay_def Let_def lagging_def getValue_def
      intro!: cells_flagDelayed_unflagged)

subsection \<open>The snapshot src/Code.js\<close>

lemma sendNotification_Code_mails_beside_chat:
  "checkSlackConfiguration e \<Longrightarrow> truthy_str (operatorEmail e) \<Longrightarrow>
   trace (sendNotification_Code e w targets) =
     trace w @ [Dispatch (Alert targets)
       (SendEmail (str_of (operatorEmail e)) (mailThrows e (length (trace w)))
        # sendSlackNotification e (length (trace w)))]"
  by (simp add: sendNotification_Code_def newDate_def Let_def sendEmail_def)

lemma trace_sendNotification_Code:
  "trace (sendNotification_Code e w targets) =
     trace w @ [Dispatch (Alert targets) (notifierCalls_Code e (length (trace w)))]"
  by (simp add: sendNotification_Code_def newDate_def Let_def notifierCalls_Code_def)

lemma trace_sendRecoveryNotification_Code:
  "trace (sendRecoveryNotification_Code e w u) =
     trace w @ [Dispatch (Recovery u) (notifierCalls_Code e (length (trace w)))]"
  by (simp add: sendRecoveryNotification_Code_def newDate_def Let_def notifierCalls_Code_def)

lemma checkBlockDelay_Code_needs_reference:
  "\<not> truthy (getValue w 1 3) \<Longrightarrow> checkBlockDelay_Code e w nodes = w"
  by (simp add: checkBlockDelay_Code_def Let_def)

subsection \<open>The example fleet\<close>

lemma zero_fleet_cells:
  "getValue zero_fleet 1 7 = CNum 50"
  "getValue zero_fleet 4 BLOCK_HEIGHT = CNum 1000"
  "getValue zero_fleet 5 BLOCK_HEIGHT = CNum 940"
  "getValue zero_fleet 6 BLOCK_HEIGHT = CNum 951"
  "getValue zero_fleet 7 BLOCK_HEIGHT = CNum 0"
  "getValue zero_fleet 7 STATUS = blank"
  by (simp_all add: zero_fleet_def fleet_def empty_sheet_def getValue_def COLUMN_MAPPING)

lemma zero_fleet_stored: "storedHeights zero_fleet zero_nodes = [1000, 940, 951, 0]"
  by (simp add: storedHeights_def zero_nodes_def fleet_nodes_def zero_fleet_cells)

lemma zero_fleet_numeric: "heightsNumeric zero_fleet zero_nodes"
  by (simp add: heightsNumeric_def zero_nodes_def fleet_nodes_def zero_fleet_cells)

lemma zero_fleet_max: "maxHeightOf zero_fleet zero_nodes = CNum 1000"
  using maxHeightOf_positive[OF zero_fleet_numeric] by (simp add: zero_fleet_stored)

lemma zero_fleet_flags_row5:
  "getValue (checkBlockDelay example_env zero_fleet zero_nodes) 5 STATUS = CStr DELAY"
proof -
  have k: "list_ex (\<lambda>h. 0 < h) (storedHeights zero_fleet zero_nodes)"
    by (simp add: zero_fleet_stored)
  have t: "(50::int) \<noteq> 0" by simp
  note F = checkBlockDelay_flagging[OF zero_fleet_numeric k zero_fleet_cells(1) t]
  have mem: "5 \<in> row ` set zero_nodes" by (simp add: zero_nodes_def fleet_nodes_def)
  have "lagging zero_fleet (Some (Max (set (storedHeights zero_fleet zero_nodes)) - 50)) 5"
    by (simp add: lagging_def zero_fleet_cells zero_fleet_stored)
  from cells_flagDelayed_flagged[OF mem this, of example_env] show ?thesis
    by (simp add: F getValue_def)
qed

subsection \<open>The enabled rows of a pass\<close>

lemma map_row_getMonitoringNodes:
  "map row (getMonitoringNodes ds w lastRow)
   = filter (enabled ds w) [FIRST_DATA_ROW ..< Suc lastRow]"
proof -
  have "map row (concat (map (\<lambda>r.
        let u = getValue w r NODE_URL;
            disabled = getValue w r DISABLED
        in if truthy u \<and> trim (toString ds u) \<noteq> [] \<and> disabled \<noteq> CStr DISABLED_MARK
           then [\<lparr>row = r, url = trim (toString ds u)\<rparr>]
           else []) rs)) = filter (enabled ds w) rs" for rs
    by (induction rs) (simp_all add: enabled_def Let_def)
  then show ?thesis by (simp add: getMonitoringNodes_def)
qed

lemma processSheet_detector:
  "getMonitoringNodes ds w lastRow \<noteq> [] \<Longrightarrow>
   processSheet ds e w lastRow enableNotification
   = (if enableNotification
      then processNotifications e
             (checkBlockDelay e (monitorAll e w (getMonitoringNodes ds w lastRow))
                (getMonitoringNodes ds w lastRow))
             (getMonitoringNodes ds w lastRow)
      else Returns (checkBlockDelay e (monitorAll e w (getMonitoringNodes ds w lastRow))
                      (getMonitoringNodes ds w lastRow)))"
  by (simp add: processSheet_def Let_def)

lemma processSheet_no_nodes:
  "getMonitoringNodes ds w lastRow = [] \<Longrightarrow>
   processSheet ds e w lastRow enableNotification = Returns w"
  by (simp add: processSheet_def Let_def)

lemma fleet_sheet_nodes:
  "getMonitoringNodes plain_date fleet_sheet_off 7 = fleet_nodes"
proof -
  have r: "[FIRST_DATA_ROW ..< Suc 7] = [4, 5, 6, 7]"
    by (simp add: FIRST_DATA_ROW_def upt_conv_Cons)
  have t: "trim '' https://b.example '' = ''https://b.example''"
    "trim ''https://a.example'' = ''https://a.example''"
    "trim ''https://c.example'' = ''https://c.example''"
    by (simp_all add: trim_def skip_spaces.simps space_len_def white_space_def)
  have c: "getValue fleet_sheet_off 4 NODE_URL = CStr ''https://a.example''"
    "getValue fleet_sheet_off 5 NODE_URL = CStr '' https://b.example ''"
    "getValue fleet_sheet_off 6 NODE_URL = CStr ''https://c.example''"
    "getValue fleet_sheet_off 7 NODE_URL = CStr ''https://d.example''"
    "getValue fleet_sheet_off 4 DISABLED = blank"
    "getValue fleet_sheet_off 5 DISABLED = blank"
    "getValue fleet_sheet_off 6 DISABLED = blank"
    "getValue fleet_sheet_off 7 DISABLED = CStr DISABLED_MARK"
    by (simp_all add: fleet_sheet_off_def fleet_sheet_def fleet_def empty_sheet_def
        getValue_def COLUMN_MAPPING)
  have "getMonitoringNodes plain_date fleet_sheet_off 7 =
     concat (map (\<lambda>r.
        let u = getValue fleet_sheet_off r NODE_URL;
            disabled = getValue fleet_sheet_off r DISABLED
        in if truthy u \<and> trim (toString plain_date u) \<noteq> [] \<and> disabled \<noteq> CStr DISABLED_MARK
           then [\<lparr>row = r, url = trim (toString plain_date u)\<rparr>]
           else []) [4, 5, 6, 7])"
    by (simp only: getMonitoringNodes_def r)
  also have "\<dots> = fleet_nodes"
    by (simp add: c t fleet_nodes_def DISABLED_MARK_def)
  finally show ?thesis .
qed

subsection \<open>Passes that probe a height of 0 and that keep a stale height\<close>

lemma two_rows: "[FIRST_DATA_ROW ..< Suc 5] = [4, 5]"
  by (simp add: FIRST_DATA_ROW_def upt_conv_Cons)

lemma trim_urls:
  "trim ''https://a.example'' = ''https://a.example''"
  "trim ''https://z.example'' = ''https://z.example''"
  "trim ''https://down.example'' = ''https://down.example''"
  "trim ''https://fine.example'' = ''https://fine.example''"
  by (simp_all add: trim_def skip_spaces.simps space_len_def white_space_def)

lemma stalled_sheet_nodes:
  "getMonitoringNodes plain_date stalled_sheet 5
   = [\<lparr>row = 4, url = ''https://a.example''\<rparr>, \<lparr>row = 5, url = ''https://z.example''\<rparr>]"
proof -
  have c: "getValue stalled_sheet 4 NODE_URL = CStr ''https://a.example''"
    "getValue stalled_sheet 5 NODE_URL = CStr ''https://z.example''"
    "getValue stalled_sheet 4 DISABLED = blank"
    "getValue stalled_sheet 5 DISABLED = blank"
    by (simp_all add: stalled_sheet_def empty_sheet_def getValue_def COLUMN_MAPPING)
  have "getMonitoringNodes plain_date stalled_sheet 5 =
     concat (map (\<lambda>r.
        let u = getValue stalled_sheet r NODE_URL;
            disabled = getValue stalled_sheet r DISABLED
        in if truthy u \<and> trim (toString plain_date u) \<noteq> [] \<and> disabled \<noteq> CStr DISABLED_MARK
           then [\<lparr>row = r, url = trim (toString plain_date u)\<rparr>]
           else []) [4, 5])"
    by (simp only: getMonitoringNodes_def two_rows)
  also have "\<dots> = [\<lparr>row = 4, url = ''https://a.example''\<rparr>, \<lparr>row = 5, url = ''https://z.example''\<rparr>]"
    by (simp add: c trim_urls DISABLED_MARK_def)
  finally show ?thesis .
qed

lemma stale_sheet_nodes:
  "getMonitoringNodes plain_date stale_sheet 5
   = [\<lparr>row = 4, url = ''https://down.example''\<rparr>, \<lparr>row = 5, url = ''https://fine.example''\<rparr>]"
proof -
  have c: "getValue stale_sheet 4 NODE_URL = CStr ''https://down.example''"
    "getValue stale_sheet 5 NODE_URL = CStr ''https://fine.example''"
    "getValue stale_sheet 4 DISABLED = blank"
    "getValue stale_sheet 5 DISABLED = blank"
    by (simp_all add: stale_sheet_def empty_sheet_def getValue_def COLUMN_MAPPING)
  have "getMonitoringNodes plain_date stale_sheet 5 =
     concat (map (\<lambda>r.
        let u = getValue stale_sheet r NODE_URL;
            disabled = getValue stale_sheet r DISABLED
        in if truthy u \<and> trim (toString plain_date u) \<noteq> [] \<and> disabled \<noteq> CStr DISABLED_MARK
           then [\<lparr>row = r, url = trim (toString plain_date u)\<rparr>]
           else []) [4, 5])"
    by (simp only: getMonitoringNodes_def two_rows)
  also have "\<dots> = [\<lparr>row = 4, url = ''https://down.example''\<rparr>, \<lparr>row = 5, url = ''https://fine.example''\<rparr>]"
    by (simp add: c trim_urls DISABLED_MARK_def)
  finally show ?thesis .
qed

lemma stalled_outcomes:
  "is_recovered (checkNodeHealth stalled_env ''https://a.example'')"
  "is_recovered (checkNodeHealth stalled_env ''https://z.example'')"
  "height (getChainHeight stalled_env ''https://a.example'') = Some 1000"
  "height (getChainHeight stalled_env ''https://z.example'') = Some 0"
  "height (getChainHeight example_env ''https://fine.example'') = Some 1000"
     apply (simp_all add: stalled_env_def)
     apply (simp_all add: checkNodeHealth_def example_env_def is_recovered_def is_healthy_def
      getChainHeight_def)
  apply (simp_all add: parseInt_def parse_unsigned_def parse_digits_def skip_spaces.simps
      space_len_def white_space_def is_digit_def digit_of_def digits_value_def)
  done

lemma up_outcomes:
  "\<not> timeout (checkNodeHealth stalled_env ''https://a.example'')"
  "\<not> sslError (checkNodeHealth stalled_env ''https://a.example'')"
  "\<not> is_transport_error (checkNodeHealth stalled_env ''https://a.example'')"
  "\<not> is_degraded (checkNodeHealth stalled_env ''https://a.example'')"
  "\<not> timeout (checkNodeHealth stalled_env ''https://z.example'')"
  "\<not> sslError (checkNodeHealth stalled_env ''https://z.example'')"
  "\<not> is_transport_error (checkNodeHealth stalled_env ''https://z.example'')"
  "\<not> is_degraded (checkNodeHealth stalled_env ''https://z.example'')"
  "\<not> timeout (checkNodeHealth example_env ''https://fine.example'')"
  "\<not> sslError (checkNodeHealth example_env ''https://fine.example'')"
  "\<not> is_transport_error (checkNodeHealth example_env ''https://fine.example'')"
  "\<not> is_degraded (checkNodeHealth example_env ''https://fine.example'')"
  by (simp_all add: stalled_env_def checkNodeHealth_def example_env_def is_transport_error_def
      is_degraded_def is_healthy_def)

lemma stalled_pass_cells:
  "cells (monitorAll stalled_env stalled_sheet
      [\<lparr>row = 4, url = ''https://a.example''\<rparr>, \<lparr>row = 5, url = ''https://z.example''\<rparr>]) 4 BLOCK_HEIGHT
   = CNum 1000"
  "cells (monitorAll stalled_env stalled_sheet
      [\<lparr>row = 4, url = ''https://a.example''\<rparr>, \<lparr>row = 5, url = ''https://z.example''\<rparr>]) 5 BLOCK_HEIGHT
   = CNum 0"
  "cells (monitorAll stalled_env stalled_sheet
      [\<lparr>row = 4, url = ''https://a.example''\<rparr>, \<lparr>row = 5, url = ''https://z.example''\<rparr>]) 5 STATUS
   = CStr RUNNING"
  "cells (monitorAll stalled_env stalled_sheet
      [\<lparr>row = 4, url = ''https://a.example''\<rparr>, \<lparr>row = 5, url = ''https://z.example''\<rparr>]) 1 7
   = CNum 50"
  by (simp_all add: monitorAll_def cells_monitorNode_other cells_monitorNode_height
      cells_monitorNode_status up_outcomes stalled_outcomes)
     (simp add: stalled_sheet_def empty_sheet_def COLUMN_MAPPING)

lemma stale_pass_cells:
  "cells (monitorAll example_env stale_sheet
      [\<lparr>row = 4, url = ''https://down.example''\<rparr>, \<lparr>row = 5, url = ''https://fine.example''\<rparr>]) 4 BLOCK_HEIGHT
   = CNum 2000"
  "cells (monitorAll example_env stale_sheet
      [\<lparr>row = 4, url = ''https://down.example''\<rparr>, \<lparr>row = 5, url = ''https://fine.example''\<rparr>]) 5 BLOCK_HEIGHT
   = CNum 1000"
  "cells (monitorAll example_env stale_sheet
      [\<lparr>row = 4, url = ''https://down.example''\<rparr>, \<lparr>row = 5, url = ''https://fine.example''\<rparr>]) 1 7
   = CNum 50"
  by (simp_all add: monitorAll_def monitorNode_transport_error example_outcomes
      cells_monitorNode_other cells_monitorNode_height up_outcomes stalled_outcomes)
     (simp_all add: stale_sheet_def empty_sheet_def COLUMN_MAPPING)

lemma stalled_pass_result:
  "getValue (world_of (processSheet plain_date stalled_env stalled_sheet 5 False)) r c
   = getValue (monitorAll stalled_env stalled_sheet
       (getMonitoringNodes plain_date stalled_sheet 5)) r c"
proof -
  let ?ns = "[\<lparr>row = 4, url = ''https://a.example''\<rparr>, \<lparr>row = 5, url = ''https://z.example''\<rparr>]"
  let ?W = "monitorAll stalled_env stalled_sheet ?ns"
  have num: "heightsNumeric ?W ?ns"
    by (simp add: heightsNumeric_def getValue_def stalled_pass_cells)
  have st: "storedHeights ?W ?ns = [1000, 0]"
    by (simp add: storedHeights_def getValue_def stalled_pass_cells)
  have pos: "list_ex (\<lambda>h. 0 < h) (storedHeights ?W ?ns)" by (simp add: st)
  have thr: "getValue ?W 1 7 = CNum 50" "(50::int) \<noteq> 0"
    unfolding getValue_def by (rule stalled_pass_cells, simp)
  have run: "checkBlockDelay stalled_env ?W ?ns = flagDelayed stalled_env (Some 950) ?W ?ns"
    using checkBlockDelay_flagging[OF num pos thr, of stalled_env] by (simp add: st)
  have "\<not> flaggable ?W ?ns 950 r"
    by (auto simp: flaggable_def getValue_def stalled_pass_cells)
  with flagDelayed_rows[OF num, of 950 r stalled_env]
  have "getValue (flagDelayed stalled_env (Some 950) ?W ?ns) r c = getValue ?W r c" by simp
  then show ?thesis
    by (simp add: processSheet_def Let_def stalled_sheet_nodes run)
qed

lemma stale_pass_result:
  "getValue (world_of (processSheet plain_date example_env stale_sheet 5 False)) 5 STATUS
   = CStr DELAY"
  "getValue (world_of (processSheet plain_date example_env stale_sheet 5 False)) 4 BLOCK_HEIGHT
   = CNum 2000"
  "getValue (world_of (processSheet plain_date example_env stale_sheet 5 False)) 5 BLOCK_HEIGHT
   = CNum 1000"
proof -
  let ?ns = "[\<lparr>row = 4, url = ''https://down.example''\<rparr>, \<lparr>row = 5, url = ''https://fine.example''\<rparr>]"
  let ?W = "monitorAll example_env stale_sheet ?ns"
  have num: "heightsNumeric ?W ?ns"
    by (simp add: heightsNumeric_def getValue_def stale_pass_cells)
  have st: "storedHeights ?W ?ns = [2000, 1000]"
    by (simp add: storedHeights_def getValue_def stale_pass_cells)
  have pos: "list_ex (\<lambda>h. 0 < h) (storedHeights ?W ?ns)" by (simp add: st)
  have thr: "getValue ?W 1 7 = CNum 50" "(50::int) \<noteq> 0"
    unfolding getValue_def by (rule stale_pass_cells, simp)
  have run: "checkBlockDelay example_env ?W ?ns = flagDelayed example_env (Some 1950) ?W ?ns"
    using checkBlockDelay_flagging[OF num pos thr, of example_env] by (simp add: st)
  have res: "world_of (processSheet plain_date example_env stale_sheet 5 False)
             = flagDelayed example_env (Some 1950) ?W ?ns"
    by (simp add: processSheet_def Let_def stale_sheet_nodes run)
  have f5: "flaggable ?W ?ns 1950 5" and f4: "\<not> flaggable ?W ?ns 1950 4"
    by (simp_all add: flaggable_def getValue_def stale_pass_cells)
  from flagDelayed_rows[OF num, of 1950 5 example_env] f5
  show "getValue (world_of (processSheet plain_date example_env stale_sheet 5 False)) 5 STATUS
        = CStr DELAY"
    by (simp add: res)
  have "BLOCK_HEIGHT \<notin> {STATUS, ERROR_TYPE, ERROR_DETECTED}" by (simp add: COLUMN_MAPPING)
  with flagDelayed_rows[OF num, of 1950 5 example_env] f5
  have "getValue (flagDelayed example_env (Some 1950) ?W ?ns) 5 BLOCK_HEIGHT
        = getValue ?W 5 BLOCK_HEIGHT" by simp
  then show "getValue (world_of (processSheet plain_date example_env stale_sheet 5 False)) 5 BLOCK_HEIGHT
        = CNum 1000"
    by (simp add: res getValue_def stale_pass_cells)
  from flagDelayed_rows[OF num, of 1950 4 example_env] f4
  show "getValue (world_of (processSheet plain_date example_env stale_sheet 5 False)) 4 BLOCK_HEIGHT
        = CNum 2000"
    by (simp add: res getValue_def stale_pass_cells)
qed

section \<open>Properties of the block delay detector\<close>

lemma fleet_stored: "storedHeights fleet fleet_nodes = [1000, 940, 951]"
  by (simp add: storedHeights_def fleet_def fleet_nodes_def getValue_def COLUMN_MAPPING)

lemma fleet_numeric: "heightsNumeric fleet fleet_nodes"
  by (simp add: heightsNumeric_def fleet_def fleet_nodes_def getValue_def COLUMN_MAPPING)

lemma fleet_max: "maxHeightOf fleet fleet_nodes = CNum 1000"
  using maxHeightOf_positive[OF fleet_numeric] by (simp add: fleet_stored)

text \<open>
  C3, as the code has it. On a sheet whose listed rows hold numbers or nothing in their
  height cells, the detector of \<open>src/unnamed/part_000\<close> computes as \<open>maxHeight\<close> the largest
  positive height stored for the listed rows (0 when none is positive). It does nothing
  when no stored height is positive or when the threshold cell is blank or zero.
  Otherwise it sets status Delay and error kind BlockDelay, stamping the detection time
  only where none is set, for exactly the listed rows whose stored height is a number
  other than 0 below \<open>maxHeight - threshold\<close>, and it leaves every other row as it was. The
  detector of \<open>src/Code.js\<close> computes no maximum: it takes the reference height from cell
  C1, does nothing when that cell or the threshold is blank or zero, and otherwise
  applies the same rule with the bound \<open>C1 - threshold\<close>. In a pass the listed rows are
  the enabled rows of the sheet, the detector runs once, on the sheet as the probes of
  that pass have left it and before any notification, and those probes keep the height
  cells numbers or blank; a sheet without enabled rows is left as it is. With heights
  1000, 940 and 951 and threshold 50 the row at 940 is flagged and the row at 951 is not.
\<close>

theorem checkBlockDelay_flags_rows_below_bound:
  assumes "heightsNumeric w nodes"
  shows
    "maxHeightOf w nodes = CNum (Max (set (0 # storedHeights w nodes))) \<and>
     (list_ex (\<lambda>h. 0 < h) (storedHeights w nodes) \<longrightarrow>
        maxHeightOf w nodes = CNum (Max (set (storedHeights w nodes)))) \<and>
     (\<not> list_ex (\<lambda>h. 0 < h) (storedHeights w nodes) \<or> getValue w 1 7 = blank
      \<or> getValue w 1 7 = CNum 0 \<longrightarrow>
        checkBlockDelay e w nodes = w) \<and>
     (list_ex (\<lambda>h. 0 < h) (storedHeights w nodes) \<and> getValue w 1 7 = CNum t \<and> t \<noteq> 0 \<longrightarrow>
        (\<forall>r. if flaggable w nodes (Max (set (storedHeights w nodes)) - t) r
             then getValue (checkBlockDelay e w nodes) r STATUS = CStr DELAY \<and>
                  getValue (checkBlockDelay e w nodes) r ERROR_TYPE = CStr BLOCK_DELAY \<and>
                  (if truthy (getValue w r ERROR_DETECTED)
                   then getValue (checkBlockDelay e w nodes) r ERROR_DETECTED
                        = getValue w r ERROR_DETECTED
                   else \<exists>d. getValue (checkBlockDelay e w nodes) r ERROR_DETECTED = CDate d) \<and>
                  (\<forall>c. c \<notin> {STATUS, ERROR_TYPE, ERROR_DETECTED} \<longrightarrow>
                       getValue (checkBlockDelay e w nodes) r c = getValue w r c)
             else \<forall>c. getValue (checkBlockDelay e w nodes) r c = getValue w r c)) \<and>
     (getValue w 1 3 = blank \<or> getValue w 1 3 = CNum 0 \<or> getValue w 1 7 = blank
      \<or> getValue w 1 7 = CNum 0 \<longrightarrow>
        checkBlockDelay_Code e w nodes = w) \<and>
     (getValue w 1 3 = CNum reference \<and> reference \<noteq> 0 \<and> getValue w 1 7 = CNum t \<and> t \<noteq> 0 \<longrightarrow>
        (\<forall>r. if flaggable w nodes (reference - t) r
             then getValue (checkBlockDelay_Code e w nodes) r STATUS = CStr DELAY \<and>
                  getValue (checkBlockDelay_Code e w nodes) r ERROR_TYPE = CStr BLOCK_DELAY \<and>
                  (if truthy (getValue w r ERROR_DETECTED)
                   then getValue (checkBlockDelay_Code e w nodes) r ERROR_DETECTED
                        = getValue w r ERROR_DETECTED
                   else \<exists>d. getValue (checkBlockDelay_Code e w nodes) r ERROR_DETECTED = CDate d) \<and>
                  (\<forall>c. c \<notin> {STATUS, ERROR_TYPE, ERROR_DETECTED} \<longrightarrow>
                       getValue (checkBlockDelay_Code e w nodes) r c = getValue w r c)
             else \<forall>c. getValue (checkBlockDelay_Code e w nodes) r c = getValue w r c)) \<and>
     heightsNumeric (monitorAll e w probed) nodes \<and>
     map row (getMonitoringNodes dateString w0 lastRow)
       = filter (enabled dateString w0) [FIRST_DATA_ROW ..< Suc lastRow] \<and>
     (getMonitoringNodes dateString w0 lastRow = [] \<longrightarrow>
        processSheet dateString e w0 lastRow enableNotification = Returns w0) \<and>
     (getMonitoringNodes dateString w0 lastRow \<noteq> [] \<longrightarrow>
        processSheet dateString e w0 lastRow enableNotification =
          (if enableNotification
           then processNotifications e
                  (checkBlockDelay e
                     (monitorAll e w0 (getMonitoringNodes dateString w0 lastRow))
                     (getMonitoringNodes dateString w0 lastRow))
                  (getMonitoringNodes dateString w0 lastRow)
           else Returns (checkBlockDelay e
                     (monitorAll e w0 (getMonitoringNodes dateString w0 lastRow))
                     (getMonitoringNodes dateString w0 lastRow))))"
proof (intro conjI impI)
  show "maxHeightOf w nodes = CNum (Max (set (0 # storedHeights w nodes)))"
    using assms by (rule maxHeightOf_stored)
next
  assume "list_ex (\<lambda>h. 0 < h) (storedHeights w nodes)"
  with assms show "maxHeightOf w nodes = CNum (Max (set (storedHeights w nodes)))"
    by (simp add: maxHeightOf_positive)
next
  assume "\<not> list_ex (\<lambda>h. 0 < h) (storedHeights w nodes) \<or> getValue w 1 7 = blank
      \<or> getValue w 1 7 = CNum 0"
  then have "\<not> list_ex (\<lambda>h. 0 < h) (storedHeights w nodes) \<or> \<not> truthy (getValue w 1 7)"
    by auto
  with assms show "checkBlockDelay e w nodes = w" by (rule checkBlockDelay_no_action)
next
  assume a: "list_ex (\<lambda>h. 0 < h) (storedHeights w nodes) \<and> getValue w 1 7 = CNum t \<and> t \<noteq> 0"
  then have "checkBlockDelay e w nodes
             = flagDelayed e (Some (Max (set (storedHeights w nodes)) - t)) w nodes"
    using checkBlockDelay_flagging[OF assms] by blast
  then show "\<forall>r. if flaggable w nodes (Max (set (storedHeights w nodes)) - t) r
             then getValue (checkBlockDelay e w nodes) r STATUS = CStr DELAY \<and>
                  getValue (checkBlockDelay e w nodes) r ERROR_TYPE = CStr BLOCK_DELAY \<and>
                  (if truthy (getValue w r ERROR_DETECTED)
                   then getValue (checkBlockDelay e w nodes) r ERROR_DETECTED
                        = getValue w r ERROR_DETECTED
                   else \<exists>d. getValue (checkBlockDelay e w nodes) r ERROR_DETECTED = CDate d) \<and>
                  (\<forall>c. c \<notin> {STATUS, ERROR_TYPE, ERROR_DETECTED} \<longrightarrow>
                       getValue (checkBlockDelay e w nodes) r c = getValue w r c)
             else \<forall>c. getValue (checkBlockDelay e w nodes) r c = getValue w r c"
    using flagDelayed_rows[OF assms, of "Max (set (storedHeights w nodes)) - t" _ e]
    by (simp only:) blast
next
  assume "getValue w 1 3 = blank \<or> getValue w 1 3 = CNum 0 \<or> getValue w 1 7 = blank
      \<or> getValue w 1 7 = CNum 0"
  then have "\<not> truthy (getValue w 1 3) \<or> \<not> truthy (getValue w 1 7)" by auto
  then show "checkBlockDelay_Code e w nodes = w" by (rule checkBlockDelay_Code_no_action)
next
  assume "getValue w 1 3 = CNum reference \<and> reference \<noteq> 0 \<and> getValue w 1 7 = CNum t \<and> t \<noteq> 0"
  then have "checkBlockDelay_Code e w nodes = flagDelayed e (Some (reference - t)) w nodes"
    by (simp add: checkBlockDelay_Code_flagging)
  then show "\<forall>r. if flaggable w nodes (reference - t) r
             then getValue (checkBlockDelay_Code e w nodes) r STATUS = CStr DELAY \<and>
                  getValue (checkBlockDelay_Code e w nodes) r ERROR_TYPE = CStr BLOCK_DELAY \<and>
                  (if truthy (getValue w r ERROR_DETECTED)
                   then getValue (checkBlockDelay_Code e w nodes) r ERROR_DETECTED
                        = getValue w r ERROR_DETECTED
                   else \<exists>d. getValue (checkBlockDelay_Code e w nodes) r ERROR_DETECTED = CDate d) \<and>
                  (\<forall>c. c \<notin> {STATUS, ERROR_TYPE, ERROR_DETECTED} \<longrightarrow>
                       getValue (checkBlockDelay_Code e w nodes) r c = getValue w r c)
             else \<forall>c. getValue (checkBlockDelay_Code e w nodes) r c = getValue w r c"
    using flagDelayed_rows[OF assms, of "reference - t" _ e]
    by (simp only:) blast
next
  show "heightsNumeric (monitorAll e w probed) nodes"
    using assms by (rule heightsNumeric_monitorAll)
next
  show "map row (getMonitoringNodes dateString w0 lastRow)
       = filter (enabled dateString w0) [FIRST_DATA_ROW ..< Suc lastRow]"
    by (rule map_row_getMonitoringNodes)
next
  assume "getMonitoringNodes dateString w0 lastRow = []"
  then show "processSheet dateString e w0 lastRow enableNotification = Returns w0"
    by (rule processSheet_no_nodes)
next
  assume "getMonitoringNodes dateString w0 lastRow \<noteq> []"
  then show "processSheet dateString e w0 lastRow enableNotification =
          (if enableNotification
           then processNotifications e
                  (checkBlockDelay e
                     (monitorAll e w0 (getMonitoringNodes dateString w0 lastRow))
                     (getMonitoringNodes dateString w0 lastRow))
                  (getMonitoringNodes dateString w0 lastRow)
           else Returns (checkBlockDelay e
                     (monitorAll e w0 (getMonitoringNodes dateString w0 lastRow))
                     (getMonitoringNodes dateString w0 lastRow)))"
    by (rule processSheet_detector)
qed

theorem checkBlockDelay_flags_rows_below_bound_witness:
  "heightsNumeric fleet fleet_nodes \<and>
   storedHeights fleet fleet_nodes = [1000, 940, 951] \<and>
   maxHeightOf fleet fleet_nodes = CNum 1000 \<and>
   getValue fleet 1 7 = CNum 50 \<and>
   getValue fleet 5 BLOCK_HEIGHT = CNum 940 \<and>
   flaggable fleet fleet_nodes 950 5 \<and>
   getValue (checkBlockDelay example_env fleet fleet_nodes) 5 STATUS = CStr DELAY \<and>
   getValue (checkBlockDelay example_env fleet fleet_nodes) 5 ERROR_TYPE = CStr BLOCK_DELAY \<and>
   getValue (checkBlockDelay example_env fleet fleet_nodes) 5 BLOCK_HEIGHT = CNum 940 \<and>
   getValue fleet 6 BLOCK_HEIGHT = CNum 951 \<and>
   \<not> flaggable fleet fleet_nodes 950 6 \<and>
   getValue (checkBlockDelay example_env fleet fleet_nodes) 6 STATUS = blank \<and>
   heightsNumeric empty_sheet fleet_nodes \<and>
   storedHeights empty_sheet fleet_nodes = [] \<and>
   checkBlockDelay example_env empty_sheet fleet_nodes = empty_sheet \<and>
   heightsNumeric unset_fleet fleet_nodes \<and>
   getValue unset_fleet 1 7 = CNum 0 \<and>
   checkBlockDelay example_env unset_fleet fleet_nodes = unset_fleet \<and>
   getValue fleet 1 3 = blank \<and>
   checkBlockDelay_Code example_env fleet fleet_nodes = fleet \<and>
   heightsNumeric zero_fleet zero_nodes \<and>
   getValue zero_fleet 1 3 = CNum 1000 \<and>
   getValue zero_fleet 1 7 = CNum 50 \<and>
   getValue (checkBlockDelay_Code example_env zero_fleet zero_nodes) 5 STATUS = CStr DELAY \<and>
   getValue (checkBlockDelay_Code example_env zero_fleet zero_nodes) 5 ERROR_TYPE
     = CStr BLOCK_DELAY \<and>
   getValue (checkBlockDelay_Code example_env zero_fleet zero_nodes) 6 STATUS = blank \<and>
   getValue (checkBlockDelay_Code example_env zero_fleet zero_nodes) 7 STATUS = blank \<and>
   heightsNumeric fleet_sheet_off fleet_nodes \<and>
   heightsNumeric (monitorAll example_env fleet_sheet_off fleet_nodes) fleet_nodes \<and>
   map row (getMonitoringNodes plain_date fleet_sheet_off 7) = [4, 5, 6] \<and>
   processSheet plain_date example_env fleet_sheet_off 7 False =
     Returns (checkBlockDelay example_env (monitorAll example_env fleet_sheet_off fleet_nodes)
                fleet_nodes) \<and>
   getMonitoringNodes plain_date empty_sheet 7 = [] \<and>
   processSheet plain_date example_env empty_sheet 7 True = Returns empty_sheet"
proof -
  have rows: "map row fleet_nodes = [4, 5, 6]" by (simp add: fleet_nodes_def)
  have fc: "getValue fleet 1 7 = CNum 50" "getValue fleet 5 BLOCK_HEIGHT = CNum 940"
    "getValue fleet 6 BLOCK_HEIGHT = CNum 951" "getValue fleet 6 STATUS = blank"
    "getValue fleet 1 3 = blank"
    by (simp_all add: fleet_def empty_sheet_def getValue_def COLUMN_MAPPING)
  have f5: "flaggable fleet fleet_nodes 950 5" and f6: "\<not> flaggable fleet fleet_nodes 950 6"
    using fc by (simp_all add: flaggable_def rows)
  note T = checkBlockDelay_flags_rows_below_bound[OF fleet_numeric, where t = 50
      and e = example_env]
  from T have m: "maxHeightOf fleet fleet_nodes = CNum 1000" by (simp add: fleet_stored)
  from T fc(1) have all: "\<forall>r. if flaggable fleet fleet_nodes 950 r
             then getValue (checkBlockDelay example_env fleet fleet_nodes) r STATUS = CStr DELAY \<and>
                  getValue (checkBlockDelay example_env fleet fleet_nodes) r ERROR_TYPE = CStr BLOCK_DELAY \<and>
                  (if truthy (getValue fleet r ERROR_DETECTED)
                   then getValue (checkBlockDelay example_env fleet fleet_nodes) r ERROR_DETECTED
                        = getValue fleet r ERROR_DETECTED
                   else \<exists>d. getValue (checkBlockDelay example_env fleet fleet_nodes) r ERROR_DETECTED = CDate d) \<and>
                  (\<forall>c. c \<notin> {STATUS, ERROR_TYPE, ERROR_DETECTED} \<longrightarrow>
                       getValue (checkBlockDelay example_env fleet fleet_nodes) r c = getValue fleet r c)
             else \<forall>c. getValue (checkBlockDelay example_env fleet fleet_nodes) r c = getValue fleet r c"
    by (simp add: fleet_stored)
  have col: "BLOCK_HEIGHT \<notin> {STATUS, ERROR_TYPE, ERROR_DETECTED}" by (simp add: COLUMN_MAPPING)
  from all[THEN spec, of 5] f5
  have r5: "getValue (checkBlockDelay example_env fleet fleet_nodes) 5 STATUS = CStr DELAY"
    "getValue (checkBlockDelay example_env fleet fleet_nodes) 5 ERROR_TYPE = CStr BLOCK_DELAY"
    "\<forall>c. c \<notin> {STATUS, ERROR_TYPE, ERROR_DETECTED} \<longrightarrow>
       getValue (checkBlockDelay example_env fleet fleet_nodes) 5 c = getValue fleet 5 c"
    by simp_all
  from r5(3) col fc(2)
  have r5h: "getValue (checkBlockDelay example_env fleet fleet_nodes) 5 BLOCK_HEIGHT = CNum 940"
    by simp
  from all[THEN spec, of 6] f6 fc(4)
  have r6: "getValue (checkBlockDelay example_env fleet fleet_nodes) 6 STATUS = blank"
    by simp
  from T fc(5) have c1: "checkBlockDelay_Code example_env fleet fleet_nodes = fleet"
    by blast
  have en: "heightsNumeric empty_sheet fleet_nodes"
    by (simp add: heightsNumeric_def fleet_nodes_def empty_sheet_def getValue_def)
  have es: "storedHeights empty_sheet fleet_nodes = []"
    by (simp add: storedHeights_def fleet_nodes_def empty_sheet_def getValue_def)
  note E = checkBlockDelay_flags_rows_below_bound[OF en, where e = example_env]
  from E es have e1: "checkBlockDelay example_env empty_sheet fleet_nodes = empty_sheet"
    by simp
  have un: "heightsNumeric unset_fleet fleet_nodes"
    by (simp add: heightsNumeric_def unset_fleet_def fleet_def fleet_nodes_def getValue_def
        COLUMN_MAPPING)
  have ut: "getValue unset_fleet 1 7 = CNum 0"
    by (simp add: unset_fleet_def getValue_def)
  note U = checkBlockDelay_flags_rows_below_bound[OF un, where e = example_env]
  from U ut have u1: "checkBlockDelay example_env unset_fleet fleet_nodes = unset_fleet"
    by blast
  have zc: "getValue zero_fleet 1 3 = CNum 1000" "getValue zero_fleet 6 STATUS = blank"
    "getValue zero_fleet 5 BLOCK_HEIGHT = CNum 940" "getValue zero_fleet 6 BLOCK_HEIGHT = CNum 951"
    "getValue zero_fleet 7 BLOCK_HEIGHT = CNum 0" "getValue zero_fleet 7 STATUS = blank"
    "getValue zero_fleet 1 7 = CNum 50"
    by (simp_all add: zero_fleet_def fleet_def empty_sheet_def getValue_def COLUMN_MAPPING)
  have zrows: "map row zero_nodes = [4, 5, 6, 7]" by (simp add: zero_nodes_def fleet_nodes_def)
  have z5: "flaggable zero_fleet zero_nodes 950 5" and z6: "\<not> flaggable zero_fleet zero_nodes 950 6"
    and z7: "\<not> flaggable zero_fleet zero_nodes 950 7"
    using zc by (simp_all add: flaggable_def zrows)
  note Z = checkBlockDelay_flags_rows_below_bound[OF zero_fleet_numeric, where t = 50
      and reference = 1000 and e = example_env]
  from Z zc(1) zc(7) have zall: "\<forall>r. if flaggable zero_fleet zero_nodes 950 r
             then getValue (checkBlockDelay_Code example_env zero_fleet zero_nodes) r STATUS = CStr DELAY \<and>
                  getValue (checkBlockDelay_Code example_env zero_fleet zero_nodes) r ERROR_TYPE = CStr BLOCK_DELAY \<and>
                  (if truthy (getValue zero_fleet r ERROR_DETECTED)
                   then getValue (checkBlockDelay_Code example_env zero_fleet zero_nodes) r ERROR_DETECTED
                        = getValue zero_fleet r ERROR_DETECTED
                   else \<exists>d. getValue (checkBlockDelay_Code example_env zero_fleet zero_nodes) r ERROR_DETECTED = CDate d) \<and>
                  (\<forall>c. c \<notin> {STATUS, ERROR_TYPE, ERROR_DETECTED} \<longrightarrow>
                       getValue (checkBlockDelay_Code example_env zero_fleet zero_nodes) r c = getValue zero_fleet r c)
             else \<forall>c. getValue (checkBlockDelay_Code example_env zero_fleet zero_nodes) r c = getValue zero_fleet r c"
    by simp
  from zall[THEN spec, of 5] z5
  have q5: "getValue (checkBlockDelay_Code example_env zero_fleet zero_nodes) 5 STATUS = CStr DELAY"
    "getValue (checkBlockDelay_Code example_env zero_fleet zero_nodes) 5 ERROR_TYPE
       = CStr BLOCK_DELAY"
    by simp_all
  from zall[THEN spec, of 6] z6 zc(2)
  have q6: "getValue (checkBlockDelay_Code example_env zero_fleet zero_nodes) 6 STATUS = blank"
    by simp
  from zall[THEN spec, of 7] z7 zc(6)
  have q7: "getValue (checkBlockDelay_Code example_env zero_fleet zero_nodes) 7 STATUS = blank"
    by simp
  have pn: "heightsNumeric fleet_sheet_off fleet_nodes"
    by (simp add: heightsNumeric_def fleet_sheet_off_def fleet_sheet_def fleet_def
        fleet_nodes_def getValue_def COLUMN_MAPPING)
  note P = checkBlockDelay_flags_rows_below_bound[OF pn, where e = example_env
      and probed = fleet_nodes and dateString = plain_date and ?w0.0 = fleet_sheet_off
      and lastRow = 7 and enableNotification = False]
  note N = checkBlockDelay_flags_rows_below_bound[OF pn, where e = example_env
      and dateString = plain_date and ?w0.0 = empty_sheet and lastRow = 7
      and enableNotification = True]
  have nn: "getMonitoringNodes plain_date empty_sheet 7 = []"
    by (simp add: getMonitoringNodes_def empty_sheet_def getValue_def)
  from N nn have n1: "processSheet plain_date example_env empty_sheet 7 True = Returns empty_sheet"
    by blast
  have ne: "getMonitoringNodes plain_date fleet_sheet_off 7 \<noteq> []"
    by (simp add: fleet_sheet_nodes fleet_nodes_def)
  from P have p0: "heightsNumeric (monitorAll example_env fleet_sheet_off fleet_nodes) fleet_nodes"
    by blast
  from P have "map row (getMonitoringNodes plain_date fleet_sheet_off 7)
       = filter (enabled plain_date fleet_sheet_off) [FIRST_DATA_ROW ..< Suc 7]" by blast
  then have p1: "map row (getMonitoringNodes plain_date fleet_sheet_off 7) = [4, 5, 6]"
    by (simp add: fleet_sheet_nodes fleet_nodes_def)
  from P ne have p2: "processSheet plain_date example_env fleet_sheet_off 7 False =
     Returns (checkBlockDelay example_env
                (monitorAll example_env fleet_sheet_off (getMonitoringNodes plain_date fleet_sheet_off 7))
                (getMonitoringNodes plain_date fleet_sheet_off 7))" by simp
  from fleet_numeric fleet_stored m fc f5 f6 r5 r5h r6 en es e1 un ut u1 c1
    zero_fleet_numeric zc q5 q6 q7 pn p0 p1 p2 nn n1
  show ?thesis
    by (simp add: fleet_sheet_nodes)
qed

text \<open>
  Three runs against the rule of C3 as the specification words it. A node whose chain
  endpoint reports height 0 in this pass, beside a node at 1000 with threshold 50, ends
  the pass Running although 0 is below 950. A node probed at 1000 in this pass is flagged
  Delay because another row, whose probe failed with a 503, still holds the height 2000
  of an earlier pass. And the detector of \<open>src/Code.js\<close> flags nothing on heights 1000 and
  940 with threshold 50 while cell C1 is blank.
\<close>

theorem detector_skips_zero_and_counts_stale_heights:
  "map row (getMonitoringNodes plain_date stalled_sheet 5) = [4, 5] \<and>
   height (getChainHeight stalled_env ''https://a.example'') = Some 1000 \<and>
   height (getChainHeight stalled_env ''https://z.example'') = Some 0 \<and>
   getValue (world_of (processSheet plain_date stalled_env stalled_sheet 5 False)) 1 7 = CNum 50 \<and>
   getValue (world_of (processSheet plain_date stalled_env stalled_sheet 5 False)) 4 BLOCK_HEIGHT
     = CNum 1000 \<and>
   getValue (world_of (processSheet plain_date stalled_env stalled_sheet 5 False)) 5 BLOCK_HEIGHT
     = CNum 0 \<and>
   getValue (world_of (processSheet plain_date stalled_env stalled_sheet 5 False)) 5 STATUS
     = CStr RUNNING \<and>
   map row (getMonitoringNodes plain_date stale_sheet 5) = [4, 5] \<and>
   getValue stale_sheet 4 BLOCK_HEIGHT = CNum 2000 \<and>
   is_transport_error (checkNodeHealth example_env ''https://down.example'') \<and>
   height (getChainHeight example_env ''https://fine.example'') = Some 1000 \<and>
   getValue (world_of (processSheet plain_date example_env stale_sheet 5 False)) 4 BLOCK_HEIGHT
     = CNum 2000 \<and>
   getValue (world_of (processSheet plain_date example_env stale_sheet 5 False)) 5 BLOCK_HEIGHT
     = CNum 1000 \<and>
   getValue (world_of (processSheet plain_date example_env stale_sheet 5 False)) 5 STATUS
     = CStr DELAY \<and>
   getValue fleet 1 7 = CNum 50 \<and>
   getValue fleet 4 BLOCK_HEIGHT = CNum 1000 \<and>
   getValue fleet 5 BLOCK_HEIGHT = CNum 940 \<and>
   getValue (checkBlockDelay_Code example_env fleet fleet_nodes) 5 STATUS = blank"
proof -
  have s: "getValue stale_sheet 4 BLOCK_HEIGHT = CNum 2000"
    by (simp add: stale_sheet_def getValue_def COLUMN_MAPPING)
  have f: "getValue fleet 1 7 = CNum 50" "getValue fleet 4 BLOCK_HEIGHT = CNum 1000"
    "getValue fleet 5 BLOCK_HEIGHT = CNum 940" "getValue fleet 5 STATUS = blank"
    "\<not> truthy (getValue fleet 1 3)"
    by (simp_all add: fleet_def empty_sheet_def getValue_def COLUMN_MAPPING)
  have c: "checkBlockDelay_Code example_env fleet fleet_nodes = fleet"
    using f(5) by (rule checkBlockDelay_Code_needs_reference)
  have p: "getValue (world_of (processSheet plain_date stalled_env stalled_sheet 5 False)) 1 7
             = CNum 50"
    "getValue (world_of (processSheet plain_date stalled_env stalled_sheet 5 False)) 4 BLOCK_HEIGHT
             = CNum 1000"
    "getValue (world_of (processSheet plain_date stalled_env stalled_sheet 5 False)) 5 BLOCK_HEIGHT
             = CNum 0"
    "getValue (world_of (processSheet plain_date stalled_env stalled_sheet 5 False)) 5 STATUS
             = CStr RUNNING"
    by (simp_all only: stalled_pass_result stalled_sheet_nodes)
       (simp_all only: getValue_def stalled_pass_cells)
  from p stale_pass_result s f(1-4) c show ?thesis
    by (simp add: stalled_sheet_nodes stale_sheet_nodes stalled_outcomes example_outcomes)
qed

section \<open>Properties of the node state machine\<close>

text \<open>
  C6. A TransportError outcome (the \<open>error\<close> field of the health result is set, and it is
  neither a timeout nor a TLS error) leaves the whole world, and so every field of the
  node record, exactly as it was, so repeating it changes nothing either. A health
  response with a status other than 200 is such an outcome, and so is a failure of the
  fetch whose error text mentions neither a timeout nor TLS (the text of a thrown error
  is never empty).
\<close>

theorem transport_error_changes_nothing:
  "(is_transport_error (checkNodeHealth e u) \<longrightarrow>
      monitorNode e w r u = w \<and> monitorNode e (monitorNode e w r u) r u = w) \<and>
   (healthEndpoint e u = HealthResponse code body \<and> code \<noteq> 200 \<longrightarrow>
      is_transport_error (checkNodeHealth e u) \<and> monitorNode e w r u = w) \<and>
   (healthEndpoint e u = HealthThrows err \<and> err \<noteq> [] \<and>
    \<not> str_includes err ''timeout'' \<and> \<not> str_includes err ''Timeout'' \<and>
    \<not> str_includes err ''certificate'' \<and> \<not> str_includes err ''SSL'' \<and>
    \<not> str_includes err ''TLS'' \<longrightarrow>
      is_transport_error (checkNodeHealth e u) \<and> monitorNode e w r u = w)"
  by (auto simp: monitorNode_transport_error transport_error_non200 transport_error_throws)

theorem transport_error_changes_nothing_witness:
  "healthEndpoint example_env ''https://down.example'' = HealthResponse 503 (HealthStatus None None) \<and>
   (503::nat) \<noteq> 200 \<and>
   is_transport_error (checkNodeHealth example_env ''https://down.example'') \<and>
   monitorNode example_env erring_row 4 ''https://down.example'' = erring_row \<and>
   monitorNode example_env (monitorNode example_env erring_row 4 ''https://down.example'') 4
     ''https://down.example'' = erring_row \<and>
   healthEndpoint example_env ''https://gone.example'' = HealthThrows ''Exception: DNS error'' \<and>
   monitorNode example_env erring_row 4 ''https://gone.example'' = erring_row"
proof -
  have a: "healthEndpoint example_env ''https://down.example''
           = HealthResponse 503 (HealthStatus None None)"
    by (simp add: example_env_def)
  have b: "healthEndpoint example_env ''https://gone.example'' = HealthThrows ''Exception: DNS error''"
    by (simp add: example_env_def)
  have c: "''Exception: DNS error'' \<noteq> [] \<and>
    \<not> str_includes ''Exception: DNS error'' ''timeout'' \<and> \<not> str_includes ''Exception: DNS error'' ''Timeout'' \<and>
    \<not> str_includes ''Exception: DNS error'' ''certificate'' \<and> \<not> str_includes ''Exception: DNS error'' ''SSL'' \<and>
    \<not> str_includes ''Exception: DNS error'' ''TLS''"
    by simp
  note T1 = transport_error_changes_nothing[where e = example_env and u = "''https://down.example''" and w = erring_row
      and r = 4 and code = 503 and body = "HealthStatus None None"]
  note T2 = transport_error_changes_nothing[where e = example_env and u = "''https://gone.example''" and w = erring_row
      and r = 4 and err = "''Exception: DNS error''"]
  from T1 a have t1: "is_transport_error (checkNodeHealth example_env ''https://down.example'')"
    "monitorNode example_env erring_row 4 ''https://down.example'' = erring_row" by simp_all
  with T1 have t1': "monitorNode example_env (monitorNode example_env erring_row 4 ''https://down.example'') 4
     ''https://down.example'' = erring_row" by blast
  from T2 b c have t2: "monitorNode example_env erring_row 4 ''https://gone.example'' = erring_row"
    by blast
  from a b t1 t1' t2 show ?thesis by simp
qed

text \<open>
  C1, as the code has it. The relation "status is Running iff the error kind is none iff
  both timestamps are blank" is established for the probed row by every outcome other
  than a transport error (Timeout, TLS error, degraded or healthy answer) and for every
  row the block delay detector flags; and every step of a pass (a probe of any row with
  any outcome, the block delay detector, the notification scheduler, the whole pass)
  preserves it for every row where it held before. It is not a property of every
  record: a row that was never written has a blank status, and a transport error leaves
  it so.
\<close>

theorem node_invariant_established_and_preserved:
  "(\<not> is_transport_error (checkNodeHealth e u) \<longrightarrow> node_invariant (monitorNode e w r u) r) \<and>
   (truthy (maxHeightOf w ns) \<and> truthy (getValue w 1 7) \<and> r \<in> row ` set ns \<and>
    lagging w (js_minus (to_number (maxHeightOf w ns)) (to_number (getValue w 1 7))) r \<longrightarrow>
      node_invariant (checkBlockDelay e w ns) r) \<and>
   (node_invariant w r' \<longrightarrow>
      node_invariant (monitorNode e w r u) r' \<and>
      node_invariant (checkBlockDelay e w ns) r' \<and>
      node_invariant (world_of (processNotifications e w ns)) r' \<and>
      node_invariant (world_of (processSheet dateString e w lastRow enableNotification)) r')"
  by (simp add: node_invariant_monitorNode_establish node_invariant_checkBlockDelay_flagged
      node_invariant_monitorNode node_invariant_checkBlockDelay
      node_invariant_processNotifications node_invariant_processSheet)

theorem node_invariant_established_and_preserved_witness:
  "\<not> is_transport_error (checkNodeHealth example_env ''https://slow.example'') \<and>
   node_invariant (monitorNode example_env fresh_row 4 ''https://slow.example'') 4 \<and>
   truthy (maxHeightOf fleet fleet_nodes) \<and> truthy (getValue fleet 1 7) \<and>
   5 \<in> row ` set fleet_nodes \<and>
   lagging fleet (js_minus (to_number (maxHeightOf fleet fleet_nodes)) (to_number (getValue fleet 1 7))) 5 \<and>
   node_invariant (checkBlockDelay example_env fleet fleet_nodes) 5 \<and>
   node_invariant erring_row 4 \<and>
   node_invariant (monitorNode example_env erring_row 4 ''https://half.example'') 4 \<and>
   node_invariant (checkBlockDelay example_env erring_row erring_nodes) 4 \<and>
   node_invariant (world_of (processNotifications example_env erring_row erring_nodes)) 4 \<and>
   node_invariant (world_of (processSheet plain_date example_env erring_row 4 True)) 4"
proof -
  have a: "\<not> is_transport_error (checkNodeHealth example_env ''https://slow.example'')"
    using example_outcomes(1) by (simp add: is_transport_error_def)
  have m: "maxHeightOf fleet fleet_nodes = CNum 1000"
    by (rule fleet_max)
  have thr: "getValue fleet 1 7 = CNum 50"
    by (simp add: fleet_def getValue_def COLUMN_MAPPING)
  have h5: "getValue fleet 5 BLOCK_HEIGHT = CNum 940"
    by (simp add: fleet_def getValue_def COLUMN_MAPPING)
  have b0: "5 \<in> row ` set fleet_nodes" by (simp add: fleet_nodes_def)
  have b1: "truthy (maxHeightOf fleet fleet_nodes)" "truthy (getValue fleet 1 7)"
    "lagging fleet (js_minus (to_number (maxHeightOf fleet fleet_nodes)) (to_number (getValue fleet 1 7))) 5"
    using m thr h5 by (simp_all add: lagging_def)
  note b = b0 b1
  have i: "node_invariant erring_row 4"
    by (simp add: node_invariant_def erring_row_cells STATUS_TYPES ERROR_TYPES)
  note A = node_invariant_established_and_preserved[where e = example_env and u = "''https://slow.example''" and w = fresh_row
      and r = 4 and ns = fleet_nodes and r' = 4]
  note B = node_invariant_established_and_preserved[where e = example_env and w = fleet and r = 5 and ns = fleet_nodes and r' = 5]
  note C = node_invariant_established_and_preserved[where e = example_env and u = "''https://half.example''" and w = erring_row
      and r = 4 and ns = erring_nodes and r' = 4 and dateString = plain_date and lastRow = 4
      and enableNotification = True]
  from A a have 1: "node_invariant (monitorNode example_env fresh_row 4 ''https://slow.example'') 4"
    by blast
  from B b have 2: "node_invariant (checkBlockDelay example_env fleet fleet_nodes) 5"
    by blast
  from C i have 3: "node_invariant (monitorNode example_env erring_row 4 ''https://half.example'') 4"
   "node_invariant (checkBlockDelay example_env erring_row erring_nodes) 4"
   "node_invariant (world_of (processNotifications example_env erring_row erring_nodes)) 4"
   "node_invariant (world_of (processSheet plain_date example_env erring_row 4 True)) 4"
    by blast+
  from a b i 1 2 3 show ?thesis by blast
qed

text \<open>The relation fails after a transition: a row that was just added (blank status,
  no error kind) whose first probe is answered with HTTP 503 is left unchanged, with a
  status that is not Running and an error kind that is none.\<close>

theorem node_invariant_fails_on_unwritten_row:
  "\<not> node_invariant (monitorNode example_env fresh_row 4 ''https://down.example'') 4"
proof -
  have "is_transport_error (checkNodeHealth example_env ''https://down.example'')"
    by (rule transport_error_non200[where code = 503 and body = "HealthStatus None None"])
       (simp_all add: example_env_def)
  then have "monitorNode example_env fresh_row 4 ''https://down.example'' = fresh_row"
    by (rule monitorNode_transport_error)
  moreover have "\<not> node_invariant fresh_row 4"
    by (simp add: node_invariant_def fresh_row_def empty_sheet_def getValue_def COLUMN_MAPPING
        STATUS_TYPES)
  ultimately show ?thesis by simp
qed

text \<open>
  C2. Once the detection time of a row is set (any truthy value, as every Date is), no
  operation that keeps the node in error overwrites it: not a Timeout, a TLS error, a
  transport error or a degraded answer for that row, even though the error kind becomes
  Timeout, the TLS label or DB/API; not the probe of another row; not the block delay
  detector; not the notification scheduler. Only the recovery (a healthy answer with both
  services up) clears it.
\<close>

theorem errorDetected_first_write_wins:
  assumes "truthy (getValue w r ERROR_DETECTED)"
  shows
    "(\<not> is_recovered (checkNodeHealth e u) \<longrightarrow>
        getValue (monitorNode e w r u) r ERROR_DETECTED = getValue w r ERROR_DETECTED) \<and>
     (timeout (checkNodeHealth e u) \<longrightarrow>
        getValue (monitorNode e w r u) r ERROR_TYPE = CStr TIMEOUT) \<and>
     (\<not> timeout (checkNodeHealth e u) \<and> sslError (checkNodeHealth e u) \<longrightarrow>
        getValue (monitorNode e w r u) r ERROR_TYPE = CStr SSL_CERT) \<and>
     (is_degraded (checkNodeHealth e u) \<longrightarrow>
        getValue (monitorNode e w r u) r ERROR_TYPE = CStr DB_API) \<and>
     (r' \<noteq> r \<longrightarrow>
        getValue (monitorNode e w r' u) r ERROR_DETECTED = getValue w r ERROR_DETECTED) \<and>
     getValue (checkBlockDelay e w ns) r ERROR_DETECTED = getValue w r ERROR_DETECTED \<and>
     getValue (world_of (processNotifications e w ns)) r ERROR_DETECTED
       = getValue w r ERROR_DETECTED \<and>
     (is_recovered (checkNodeHealth e u) \<longrightarrow>
        getValue (monitorNode e w r u) r ERROR_DETECTED = blank)"
proof -
  from assms have t: "truthy (cells w r ERROR_DETECTED)" by (simp add: getValue_def)
  have ne: "ERROR_DETECTED \<noteq> LAST_NOTIFIED" by (simp add: COLUMN_MAPPING)
  have d: "is_degraded h \<Longrightarrow> \<not> timeout h \<and> \<not> sslError h \<and> \<not> is_transport_error h" for h
    by (simp add: is_degraded_def is_healthy_def is_transport_error_def)
  show ?thesis
    using t d
    by (simp add: getValue_def cells_monitorNode_detected cells_monitorNode_errorType
        cells_monitorNode_other cells_checkBlockDelay_detected_kept
        cells_processNotifications_other[OF ne])
qed

theorem errorDetected_first_write_wins_witness:
  "truthy (getValue erring_row 4 ERROR_DETECTED) \<and>
   getValue erring_row 4 ERROR_TYPE = CStr TIMEOUT \<and>
   is_degraded (checkNodeHealth example_env ''https://half.example'') \<and>
   getValue (monitorNode example_env erring_row 4 ''https://half.example'') 4 ERROR_TYPE = CStr DB_API \<and>
   getValue (monitorNode example_env erring_row 4 ''https://half.example'') 4 ERROR_DETECTED
     = CDate 1699999000000 \<and>
   timeout (checkNodeHealth example_env ''https://slow.example'') \<and>
   getValue (monitorNode example_env erring_row 4 ''https://slow.example'') 4 ERROR_DETECTED
     = CDate 1699999000000 \<and>
   sslError (checkNodeHealth example_env ''https://tls.example'') \<and>
   getValue (monitorNode example_env erring_row 4 ''https://tls.example'') 4 ERROR_TYPE = CStr SSL_CERT \<and>
   getValue (monitorNode example_env erring_row 4 ''https://tls.example'') 4 ERROR_DETECTED
     = CDate 1699999000000 \<and>
   getValue (monitorNode example_env erring_row 5 ''https://slow.example'') 4 ERROR_DETECTED
     = CDate 1699999000000 \<and>
   getValue (checkBlockDelay example_env erring_row erring_nodes) 4 ERROR_DETECTED
     = CDate 1699999000000 \<and>
   getValue (world_of (processNotifications example_env erring_row erring_nodes)) 4 ERROR_DETECTED
     = CDate 1699999000000 \<and>
   is_recovered (checkNodeHealth example_env ''https://fine.example'') \<and>
   getValue (monitorNode example_env erring_row 4 ''https://fine.example'') 4 ERROR_DETECTED = blank"
proof -
  have t: "truthy (getValue erring_row 4 ERROR_DETECTED)" by (simp add: erring_row_cells)
  have nr: "\<not> is_recovered (checkNodeHealth example_env ''https://half.example'')"
    "\<not> is_recovered (checkNodeHealth example_env ''https://slow.example'')"
    "\<not> is_recovered (checkNodeHealth example_env ''https://tls.example'')"
    using example_outcomes by (simp_all add: is_recovered_def is_degraded_def is_healthy_def)
  note H = errorDetected_first_write_wins[OF t, where e = example_env and u = "''https://half.example''"
      and ns = erring_nodes and r' = 5]
  note S = errorDetected_first_write_wins[OF t, where e = example_env and u = "''https://slow.example''"
      and ns = erring_nodes and r' = 5]
  note L = errorDetected_first_write_wins[OF t, where e = example_env and u = "''https://tls.example''"
      and ns = erring_nodes and r' = 5]
  note F = errorDetected_first_write_wins[OF t, where e = example_env and u = "''https://fine.example''"
      and ns = erring_nodes and r' = 5]
  from H S L F t nr example_outcomes show ?thesis
    by (simp add: erring_row_cells)
qed

section \<open>Properties of the notification scheduler\<close>

text \<open>
  C7. On a sheet whose last-notification cells hold a timestamp or nothing, the batch
  collected by the scheduler consists of exactly the listed records, in order, whose
  status is not Running and that are due: never notified, or last notified at least 30
  minutes before \<open>now\<close>. A record whose status is Running is never in the batch, whatever
  the cells hold. The batch handed to the notifier by \<open>processNotifications\<close> is this one,
  for the time read at the start of the scheduler; an empty batch dispatches nothing.
  A record notified 20 minutes ago is left out, one notified 31 minutes ago is included.
\<close>

theorem notification_batch_is_due_records:
  assumes "list_all (\<lambda>n. timestampOrBlank (getValue w (row n) LAST_NOTIFIED)) nodes"
  shows
    "map (\<lambda>t. (row t, url t)) (notificationTargets w now nodes) =
       map (\<lambda>n. (row n, url n))
         (filter (\<lambda>n. getValue w (row n) STATUS \<noteq> CStr RUNNING \<and>
                       due now (getValue w (row n) LAST_NOTIFIED)) nodes) \<and>
     (\<forall>t \<in> set (notificationTargets w now nodes). getValue w (row t) STATUS \<noteq> CStr RUNNING) \<and>
     (notificationTargets w (clock e (ticks w)) nodes \<noteq> [] \<and>
      dispatched (notificationTargets w (clock e (ticks w)) nodes) \<longrightarrow>
        (\<exists>calls. trace (world_of (processNotifications e w nodes)) =
           trace w @ [Dispatch (Alert (notificationTargets w (clock e (ticks w)) nodes)) calls])) \<and>
     (notificationTargets w (clock e (ticks w)) nodes = [] \<longrightarrow>
        trace (world_of (processNotifications e w nodes)) = trace w)"
proof -
  have "filter (\<lambda>n. getValue w (row n) STATUS \<noteq> CStr RUNNING \<and>
                   shouldNotify now (getValue w (row n) LAST_NOTIFIED)) nodes
        = filter (\<lambda>n. getValue w (row n) STATUS \<noteq> CStr RUNNING \<and>
                   due now (getValue w (row n) LAST_NOTIFIED)) nodes"
    using assms by (intro filter_cong) (auto simp: list_all_iff shouldNotify_due)
  then have 1: "map (\<lambda>t. (row t, url t)) (notificationTargets w now nodes) =
       map (\<lambda>n. (row n, url n))
         (filter (\<lambda>n. getValue w (row n) STATUS \<noteq> CStr RUNNING \<and>
                       due now (getValue w (row n) LAST_NOTIFIED)) nodes)"
    by (simp add: notificationTargets_filter)
  have 2: "\<forall>t \<in> set (notificationTargets w now nodes). getValue w (row t) STATUS \<noteq> CStr RUNNING"
  proof
    fix t assume "t \<in> set (notificationTargets w now nodes)"
    from notificationTargets_mem[OF this]
    show "getValue w (row t) STATUS \<noteq> CStr RUNNING" unfolding getValue_def by metis
  qed
  from 1 2 show ?thesis by (simp add: trace_processNotifications)
qed

theorem notification_batch_is_due_records_witness:
  "list_all (\<lambda>n. timestampOrBlank (getValue alerting (row n) LAST_NOTIFIED)) alerting_nodes \<and>
   getValue alerting 4 LAST_NOTIFIED = blank \<and>
   getValue alerting 5 LAST_NOTIFIED = CDate (1700000000000 - 20 * 60 * 1000) \<and>
   getValue alerting 6 LAST_NOTIFIED = CDate (1700000000000 - 31 * 60 * 1000) \<and>
   getValue alerting 7 STATUS = CStr RUNNING \<and>
   map (\<lambda>t. (row t, url t)) (notificationTargets alerting 1700000000000 alerting_nodes) =
     [(4, ''https://a.example''), (6, ''https://c.example'')] \<and>
   notificationTargets alerting (clock example_env (ticks alerting)) alerting_nodes \<noteq> [] \<and>
   dispatched (notificationTargets alerting (clock example_env (ticks alerting)) alerting_nodes) \<and>
   (\<exists>calls. trace (world_of (processNotifications example_env alerting alerting_nodes)) =
      trace alerting @ [Dispatch (Alert alerting_targets) calls]) \<and>
   list_all (\<lambda>n. timestampOrBlank (getValue alerting (row n) LAST_NOTIFIED)) running_nodes \<and>
   notificationTargets alerting (clock example_env (ticks alerting)) running_nodes = [] \<and>
   trace (world_of (processNotifications example_env alerting running_nodes)) = trace alerting"
proof -
  have rwf: "list_all (\<lambda>n. timestampOrBlank (getValue alerting (row n) LAST_NOTIFIED)) running_nodes"
    by (simp add: running_nodes_def alerting_def getValue_def cells_with_record
        timestampOrBlank_def COLUMN_MAPPING)
  have rempty: "notificationTargets alerting (clock example_env (ticks alerting)) running_nodes = []"
    by (simp add: running_nodes_def alerting_def getValue_def cells_with_record Let_def
        COLUMN_MAPPING)
  note R = notification_batch_is_due_records[OF rwf, where e = example_env]
  from R rempty
  have r1: "trace (world_of (processNotifications example_env alerting running_nodes)) = trace alerting"
    by blast
  note T = notification_batch_is_due_records[OF alerting_wf, where now = 1700000000000 and e = example_env]
  have tk: "ticks alerting = 0"
    by (simp add: alerting_def with_record_def empty_sheet_def)
  have c: "getValue alerting 4 LAST_NOTIFIED = blank"
    "getValue alerting 5 LAST_NOTIFIED = CDate (1700000000000 - 20 * 60 * 1000)"
    "getValue alerting 6 LAST_NOTIFIED = CDate (1700000000000 - 31 * 60 * 1000)"
    "getValue alerting 7 LAST_NOTIFIED = blank"
    "getValue alerting 4 STATUS = CStr ERROR"
    "getValue alerting 5 STATUS = CStr ERROR"
    "getValue alerting 6 STATUS = CStr DELAY"
    "getValue alerting 7 STATUS = CStr RUNNING"
    by (simp_all add: alerting_def getValue_def cells_with_record COLUMN_MAPPING)
  have f: "map (\<lambda>n. (row n, url n))
         (filter (\<lambda>n. getValue alerting (row n) STATUS \<noteq> CStr RUNNING \<and>
                       due 1700000000000 (getValue alerting (row n) LAST_NOTIFIED)) alerting_nodes)
       = [(4, ''https://a.example''), (6, ''https://c.example'')]"
    by (simp add: alerting_nodes_def c due_def STATUS_TYPES)
  have ne: "notificationTargets alerting (clock example_env (ticks alerting)) alerting_nodes \<noteq> []"
    "dispatched (notificationTargets alerting (clock example_env (ticks alerting)) alerting_nodes)"
    "notificationTargets alerting (clock example_env (ticks alerting)) alerting_nodes = alerting_targets"
    by (simp_all add: tk alerting_now alerting_targets_eval alerting_dispatched)
       (simp add: alerting_targets_def)
  from T f have 1: "map (\<lambda>t. (row t, url t)) (notificationTargets alerting 1700000000000 alerting_nodes) =
     [(4, ''https://a.example''), (6, ''https://c.example'')]" by simp
  from T ne have 2: "\<exists>calls. trace (world_of (processNotifications example_env alerting alerting_nodes)) =
      trace alerting @ [Dispatch (Alert alerting_targets) calls]" by simp
  from alerting_wf c 1 ne 2 rwf rempty r1 show ?thesis by simp
qed

text \<open>
  C8. When a batch is dispatched, \<open>sendNotification\<close> returns and has stamped the last
  notification time of exactly the rows of the batch with the time it read on entry;
  every other cell of the sheet is as before. The same cells result whether or not the
  mail and chat transports throw. For the scheduler as a whole: the rows of the batch it
  collected are stamped and no other cell changes, so a pass with nothing due stamps
  nothing.
\<close>

theorem lastNotified_stamped_on_dispatch:
  "(\<forall>r c. getValue (world_of (sendNotification e w targets)) r c =
      (if dispatched targets \<and> c = LAST_NOTIFIED \<and> r \<in> row ` set targets
       then CDate (clock e (ticks w)) else getValue w r c)) \<and>
   (dispatched targets \<longrightarrow> (\<exists>w'. sendNotification e w targets = Returns w')) \<and>
   cells (world_of (sendNotification (e\<lparr>mailThrows := mt, slackThrows := st\<rparr>) w targets))
     = cells (world_of (sendNotification e w targets)) \<and>
   (\<forall>r c. getValue (world_of (processNotifications e w nodes)) r c =
      (if dispatched (notificationTargets w (clock e (ticks w)) nodes) \<and> c = LAST_NOTIFIED \<and>
          r \<in> row ` set (notificationTargets w (clock e (ticks w)) nodes)
       then CDate (clock e (Suc (ticks w))) else getValue w r c))"
proof -
  have "cells (world_of (sendNotification (e\<lparr>mailThrows := mt, slackThrows := st\<rparr>) w targets)) r c
     = cells (world_of (sendNotification e w targets)) r c" for r c
    by (simp add: cells_sendNotification)
  then have "cells (world_of (sendNotification (e\<lparr>mailThrows := mt, slackThrows := st\<rparr>) w targets))
     = cells (world_of (sendNotification e w targets))" by (intro ext)
  then show ?thesis
    by (simp add: getValue_def cells_sendNotification cells_processNotifications
        sendNotification_Returns)
qed

theorem lastNotified_stamped_on_dispatch_witness:
  "dispatched alerting_targets \<and> mailThrows example_env 0 \<and>
   sendNotification example_env alerting alerting_targets
     = Returns (world_of (sendNotification example_env alerting alerting_targets)) \<and>
   trace (world_of (sendNotification example_env alerting alerting_targets))
     = [Dispatch (Alert alerting_targets) [SendEmail ''ops@example.org'' True]] \<and>
   getValue (world_of (sendNotification example_env alerting alerting_targets)) 4 LAST_NOTIFIED
     = CDate 1700000000000 \<and>
   getValue (world_of (sendNotification example_env alerting alerting_targets)) 6 LAST_NOTIFIED
     = CDate 1700000000000 \<and>
   getValue (world_of (sendNotification example_env alerting alerting_targets)) 5 LAST_NOTIFIED
     = CDate 1699998800000 \<and>
   getValue (world_of (sendNotification example_env alerting alerting_targets)) 7 LAST_NOTIFIED
     = blank \<and>
   getValue (world_of (processNotifications example_env alerting alerting_nodes)) 4 LAST_NOTIFIED
     = CDate 1700000000001 \<and>
   getValue (world_of (processNotifications example_env alerting alerting_nodes)) 5 LAST_NOTIFIED
     = CDate 1699998800000"
proof -
  note T = lastNotified_stamped_on_dispatch[where e = example_env and w = alerting and targets = alerting_targets
      and nodes = alerting_nodes and mt = "\<lambda>k. False" and st = "\<lambda>k. False"]
  have tk: "ticks alerting = 0" "trace alerting = []"
    by (simp_all add: alerting_def with_record_def empty_sheet_def)
  have c: "getValue alerting 5 LAST_NOTIFIED = CDate 1699998800000"
    "getValue alerting 7 LAST_NOTIFIED = blank"
    by (simp_all add: alerting_def getValue_def cells_with_record COLUMN_MAPPING)
  have rows: "row ` set alerting_targets = {4, 6}" by (auto simp: alerting_targets_def)
  from T alerting_dispatched obtain w' where
    w': "sendNotification example_env alerting alerting_targets = Returns w'" by blast
  then have r: "sendNotification example_env alerting alerting_targets
     = Returns (world_of (sendNotification example_env alerting alerting_targets))" by simp
  have tr: "trace (world_of (sendNotification example_env alerting alerting_targets))
     = [Dispatch (Alert alerting_targets) [SendEmail ''ops@example.org'' True]]"
    by (simp add: trace_sendNotification alerting_dispatched tk)
       (simp add: example_env_def checkSlackConfiguration_def sendSlackNotification_def
         sendEmail_def operatorEmail_def Let_def)
  have m: "mailThrows example_env 0" by (simp add: example_env_def)
  from T have s: "\<forall>r c. getValue (world_of (sendNotification example_env alerting alerting_targets)) r c =
      (if c = LAST_NOTIFIED \<and> r \<in> {4, 6} then CDate 1700000000000 else getValue alerting r c)"
    by (simp add: alerting_dispatched rows tk alerting_now)
  from T have p: "\<forall>r c. getValue (world_of (processNotifications example_env alerting alerting_nodes)) r c =
      (if c = LAST_NOTIFIED \<and> r \<in> {4, 6} then CDate 1700000000001 else getValue alerting r c)"
    by (simp add: tk alerting_now alerting_targets_eval alerting_dispatched rows)
  from alerting_dispatched m r tr show ?thesis
    by (simp add: s p c)
qed

section \<open>Properties of the notifier\<close>

text \<open>
  C4, as the code has it. In \<open>src/unnamed/part_000\<close> every alert dispatch and every
  recovery dispatch makes the same transport calls: with a chat configuration (a webhook
  URL, or a bot token and a channel) one chat post and no mail; without one, a single
  mail to the operator address when there is one (the session identity, else the
  configured address), and nothing at all when neither is a non-empty string. In the
  snapshot \<open>src/Code.js\<close> the two channels add up: every alert dispatch and every recovery
  dispatch mails the operator address when there is one, whether or not a chat
  configuration exists, and then posts to the chat when one exists.
\<close>

theorem notifier_channel_selection:
  "(dispatched targets \<longrightarrow>
      trace (world_of (sendNotification e w targets)) =
        trace w @ [Dispatch (Alert targets) (notifierCalls e (length (trace w)))]) \<and>
   trace (sendRecoveryNotification e w u) =
     trace w @ [Dispatch (Recovery u) (notifierCalls e (length (trace w)))] \<and>
   (checkSlackConfiguration e \<longrightarrow>
      notifierCalls e k \<noteq> [] \<and> list_all (\<lambda>c. \<not> is_email c) (notifierCalls e k)) \<and>
   (\<not> checkSlackConfiguration e \<and> truthy_str (operatorEmail e) \<longrightarrow>
      notifierCalls e k = [SendEmail (str_of (operatorEmail e)) (mailThrows e k)]) \<and>
   (\<not> checkSlackConfiguration e \<and> \<not> truthy_str (operatorEmail e) \<longrightarrow> notifierCalls e k = []) \<and>
   operatorEmail e =
     (if activeUserEmail e \<noteq> [] then Some (activeUserEmail e) else getProperty e ''EMAIL_ADDRESS'') \<and>
   trace (sendNotification_Code e w targets) =
     trace w @ [Dispatch (Alert targets) (notifierCalls_Code e (length (trace w)))] \<and>
   trace (sendRecoveryNotification_Code e w u) =
     trace w @ [Dispatch (Recovery u) (notifierCalls_Code e (length (trace w)))] \<and>
   (truthy_str (operatorEmail e) \<longrightarrow>
      notifierCalls_Code e k =
        SendEmail (str_of (operatorEmail e)) (mailThrows e k) # sendSlackNotification e k) \<and>
   (\<not> truthy_str (operatorEmail e) \<longrightarrow> notifierCalls_Code e k = sendSlackNotification e k) \<and>
   (checkSlackConfiguration e \<longrightarrow>
      sendSlackNotification e k \<noteq> [] \<and>
      list_all (\<lambda>c. \<not> is_email c) (sendSlackNotification e k)) \<and>
   (\<not> checkSlackConfiguration e \<longrightarrow> sendSlackNotification e k = [])"
proof -
  have part: "(dispatched targets \<longrightarrow>
      trace (world_of (sendNotification e w targets)) =
        trace w @ [Dispatch (Alert targets) (notifierCalls e (length (trace w)))]) \<and>
   trace (sendRecoveryNotification e w u) =
     trace w @ [Dispatch (Recovery u) (notifierCalls e (length (trace w)))] \<and>
   (checkSlackConfiguration e \<longrightarrow>
      notifierCalls e k \<noteq> [] \<and> list_all (\<lambda>c. \<not> is_email c) (notifierCalls e k)) \<and>
   (\<not> checkSlackConfiguration e \<and> truthy_str (operatorEmail e) \<longrightarrow>
      notifierCalls e k = [SendEmail (str_of (operatorEmail e)) (mailThrows e k)]) \<and>
   (\<not> checkSlackConfiguration e \<and> \<not> truthy_str (operatorEmail e) \<longrightarrow> notifierCalls e k = []) \<and>
   operatorEmail e =
     (if activeUserEmail e \<noteq> [] then Some (activeUserEmail e) else getProperty e ''EMAIL_ADDRESS'')"
    by (auto simp: trace_sendNotification trace_sendRecoveryNotification notifierCalls_def
      sendSlackNotification_unconfigured sendSlackNotification_configured sendEmail_def
      operatorEmail_def Let_def)
  have code: "(truthy_str (operatorEmail e) \<longrightarrow>
      notifierCalls_Code e k =
        SendEmail (str_of (operatorEmail e)) (mailThrows e k) # sendSlackNotification e k) \<and>
   (\<not> truthy_str (operatorEmail e) \<longrightarrow> notifierCalls_Code e k = sendSlackNotification e k)"
    by (simp add: notifierCalls_Code_def sendEmail_def Let_def)
  have slack: "(checkSlackConfiguration e \<longrightarrow>
      sendSlackNotification e k \<noteq> [] \<and>
      list_all (\<lambda>c. \<not> is_email c) (sendSlackNotification e k)) \<and>
   (\<not> checkSlackConfiguration e \<longrightarrow> sendSlackNotification e k = [])"
    by (simp add: sendSlackNotification_configured sendSlackNotification_unconfigured)
  note alert = trace_sendNotification_Code[of e w targets]
  note recovery = trace_sendRecoveryNotification_Code[of e w u]
  from part code slack alert recovery show ?thesis by blast
qed

theorem notifier_channel_selection_witness:
  "dispatched alerting_targets \<and>
   checkSlackConfiguration webhook_env \<and>
   trace (world_of (sendNotification webhook_env alerting alerting_targets))
     = [Dispatch (Alert alerting_targets) [PostWebhook ''https://hooks.slack.example/T0'' True]] \<and>
   checkSlackConfiguration bot_env \<and>
   trace (sendRecoveryNotification bot_env alerting (CStr ''https://a.example''))
     = [Dispatch (Recovery (CStr ''https://a.example''))
          [PostBotMessage ''xoxb-1'' ''C012345'' True]] \<and>
   \<not> checkSlackConfiguration example_env \<and> truthy_str (operatorEmail example_env) \<and>
   trace (world_of (sendNotification example_env alerting alerting_targets))
     = [Dispatch (Alert alerting_targets) [SendEmail ''ops@example.org'' True]] \<and>
   \<not> checkSlackConfiguration fallback_env \<and> truthy_str (operatorEmail fallback_env) \<and>
   trace (sendRecoveryNotification fallback_env alerting (CStr ''https://a.example''))
     = [Dispatch (Recovery (CStr ''https://a.example''))
          [SendEmail ''fallback@example.org'' True]] \<and>
   \<not> checkSlackConfiguration silent_env \<and> \<not> truthy_str (operatorEmail silent_env) \<and>
   trace (sendRecoveryNotification silent_env alerting (CStr ''https://a.example''))
     = [Dispatch (Recovery (CStr ''https://a.example'')) []] \<and>
   truthy_str (operatorEmail webhook_env) \<and>
   trace (sendNotification_Code webhook_env alerting alerting_targets)
     = [Dispatch (Alert alerting_targets)
          [SendEmail ''ops@example.org'' True,
           PostWebhook ''https://hooks.slack.example/T0'' True]] \<and>
   truthy_str (operatorEmail bot_env) \<and>
   trace (sendRecoveryNotification_Code bot_env alerting (CStr ''https://a.example''))
     = [Dispatch (Recovery (CStr ''https://a.example''))
          [SendEmail ''ops@example.org'' True, PostBotMessage ''xoxb-1'' ''C012345'' True]] \<and>
   trace (sendNotification_Code example_env alerting alerting_targets)
     = [Dispatch (Alert alerting_targets) [SendEmail ''ops@example.org'' True]] \<and>
   trace (sendRecoveryNotification_Code silent_env alerting (CStr ''https://a.example''))
     = [Dispatch (Recovery (CStr ''https://a.example'')) []]"
proof -
  have tk: "trace alerting = []"
    by (simp add: alerting_def with_record_def empty_sheet_def)
  note W = notifier_channel_selection[where e = webhook_env and w = alerting and targets = alerting_targets and k = 0]
  note B = notifier_channel_selection[where e = bot_env and w = alerting and u = "CStr ''https://a.example''" and k = 0]
  note E = notifier_channel_selection[where e = example_env and w = alerting and targets = alerting_targets and k = 0]
  note F = notifier_channel_selection[where e = fallback_env and w = alerting and u = "CStr ''https://a.example''" and k = 0]
  note S = notifier_channel_selection[where e = silent_env and w = alerting and u = "CStr ''https://a.example''" and k = 0]
  have cfg: "checkSlackConfiguration webhook_env" "checkSlackConfiguration bot_env"
    "\<not> checkSlackConfiguration example_env" "\<not> checkSlackConfiguration fallback_env"
    "\<not> checkSlackConfiguration silent_env"
    by (simp_all add: checkSlackConfiguration_def webhook_env_def bot_env_def example_env_def
        fallback_env_def silent_env_def)
  have em: "operatorEmail example_env = Some ''ops@example.org''"
    "operatorEmail fallback_env = Some ''fallback@example.org''"
    "operatorEmail silent_env = None"
    "operatorEmail webhook_env = Some ''ops@example.org''"
    "operatorEmail bot_env = Some ''ops@example.org''"
    by (simp_all add: operatorEmail_def example_env_def fallback_env_def silent_env_def
        webhook_env_def bot_env_def)
  have thr: "mailThrows example_env 0" "mailThrows fallback_env 0"
    "mailThrows webhook_env 0" "mailThrows bot_env 0"
    by (simp_all add: example_env_def fallback_env_def webhook_env_def bot_env_def)
  have posts: "sendSlackNotification webhook_env 0
                 = [PostWebhook ''https://hooks.slack.example/T0'' True]"
    "sendSlackNotification bot_env 0 = [PostBotMessage ''xoxb-1'' ''C012345'' True]"
    by (simp_all add: sendSlackNotification_def webhook_env_def bot_env_def example_env_def)
  have slack: "notifierCalls webhook_env 0 = [PostWebhook ''https://hooks.slack.example/T0'' True]"
    "notifierCalls bot_env 0 = [PostBotMessage ''xoxb-1'' ''C012345'' True]"
    by (simp_all add: notifierCalls_def cfg posts)
  from W alerting_dispatched slack tk
  have 1: "trace (world_of (sendNotification webhook_env alerting alerting_targets))
     = [Dispatch (Alert alerting_targets) [PostWebhook ''https://hooks.slack.example/T0'' True]]"
    by simp
  from B slack tk
  have 2: "trace (sendRecoveryNotification bot_env alerting (CStr ''https://a.example''))
     = [Dispatch (Recovery (CStr ''https://a.example'')) [PostBotMessage ''xoxb-1'' ''C012345'' True]]"
    by simp
  from E alerting_dispatched cfg em thr tk
  have 3: "trace (world_of (sendNotification example_env alerting alerting_targets))
     = [Dispatch (Alert alerting_targets) [SendEmail ''ops@example.org'' True]]"
    by simp
  from F cfg em thr tk
  have 4: "trace (sendRecoveryNotification fallback_env alerting (CStr ''https://a.example''))
     = [Dispatch (Recovery (CStr ''https://a.example'')) [SendEmail ''fallback@example.org'' True]]"
    by simp
  from S cfg em tk
  have 5: "trace (sendRecoveryNotification silent_env alerting (CStr ''https://a.example''))
     = [Dispatch (Recovery (CStr ''https://a.example'')) []]"
    by simp
  from W em thr posts tk
  have 6: "trace (sendNotification_Code webhook_env alerting alerting_targets)
     = [Dispatch (Alert alerting_targets)
          [SendEmail ''ops@example.org'' True,
           PostWebhook ''https://hooks.slack.example/T0'' True]]"
    by simp
  from B em thr posts tk
  have 7: "trace (sendRecoveryNotification_Code bot_env alerting (CStr ''https://a.example''))
     = [Dispatch (Recovery (CStr ''https://a.example''))
          [SendEmail ''ops@example.org'' True, PostBotMessage ''xoxb-1'' ''C012345'' True]]"
    by simp
  from E cfg em thr tk
  have 8: "trace (sendNotification_Code example_env alerting alerting_targets)
     = [Dispatch (Alert alerting_targets) [SendEmail ''ops@example.org'' True]]"
    by simp
  from S cfg em tk
  have 9: "trace (sendRecoveryNotification_Code silent_env alerting (CStr ''https://a.example''))
     = [Dispatch (Recovery (CStr ''https://a.example'')) []]"
    by simp
  from alerting_dispatched cfg em 1 2 3 4 5 6 7 8 9 show ?thesis by simp
qed

text \<open>Without a chat configuration and without any operator address, a recovery
  dispatch and an alert dispatch of \<open>src/unnamed/part_000\<close> send no direct email: they make
  no transport call. With a webhook configured, an alert dispatch and a recovery dispatch
  of \<open>src/Code.js\<close> send a direct email and post to the chat.\<close>

theorem no_address_no_direct_email:
  "\<not> checkSlackConfiguration silent_env \<and>
   trace (sendRecoveryNotification silent_env empty_sheet (CStr ''https://a.example''))
     = [Dispatch (Recovery (CStr ''https://a.example'')) []] \<and>
   trace (world_of (sendNotification silent_env empty_sheet alerting_targets))
     = [Dispatch (Alert alerting_targets) []] \<and>
   checkSlackConfiguration webhook_env \<and>
   trace (sendNotification_Code webhook_env empty_sheet alerting_targets)
     = [Dispatch (Alert alerting_targets)
          [SendEmail ''ops@example.org'' True,
           PostWebhook ''https://hooks.slack.example/T0'' True]] \<and>
   trace (sendRecoveryNotification_Code webhook_env empty_sheet (CStr ''https://a.example''))
     = [Dispatch (Recovery (CStr ''https://a.example''))
          [SendEmail ''ops@example.org'' True,
           PostWebhook ''https://hooks.slack.example/T0'' True]]"
  by (simp add: trace_sendRecoveryNotification trace_sendNotification alerting_dispatched
       trace_sendNotification_Code trace_sendRecoveryNotification_Code notifierCalls_Code_def)
     (simp add: checkSlackConfiguration_def sendSlackNotification_def sendEmail_def
       operatorEmail_def silent_env_def webhook_env_def example_env_def empty_sheet_def Let_def)

section \<open>Properties of recovery\<close>

text \<open>
  C5. When the probe of a row answers healthy with both services up, the row ends with
  status Running and with error kind, detection time and last notification time blank.
  If its last notification time was set (truthy, as every Date is), the notifier is
  called for exactly one recovery notification, for the URL cell of that row: the trace
  grows by that single dispatch, which \<open>clearNodeError\<close> makes before it writes the four
  cells. If the last notification time was empty, the trace is unchanged: no recovery
  notification is emitted. Which transport calls a dispatch makes is the notifier's
  matter (C4).
\<close>

theorem recovery_notifies_once_and_clears:
  assumes "is_recovered (checkNodeHealth e u)"
  shows
    "getValue (monitorNode e w r u) r STATUS = CStr RUNNING \<and>
     getValue (monitorNode e w r u) r ERROR_TYPE = blank \<and>
     getValue (monitorNode e w r u) r ERROR_DETECTED = blank \<and>
     getValue (monitorNode e w r u) r LAST_NOTIFIED = blank \<and>
     (truthy (getValue w r LAST_NOTIFIED) \<longrightarrow>
        trace (monitorNode e w r u) =
          trace w @ [Dispatch (Recovery (getValue w r NODE_URL))
                       (notifierCalls e (length (trace w)))]) \<and>
     (\<not> truthy (getValue w r LAST_NOTIFIED) \<longrightarrow> trace (monitorNode e w r u) = trace w)"
proof -
  from assms have n: "\<not> timeout (checkNodeHealth e u)" "\<not> sslError (checkNodeHealth e u)"
    "\<not> is_transport_error (checkNodeHealth e u)" "\<not> is_degraded (checkNodeHealth e u)"
    by (auto simp: is_recovered_def is_healthy_def is_transport_error_def is_degraded_def)
  show ?thesis
    using assms n
    by (simp add: getValue_def cells_monitorNode_status cells_monitorNode_errorType
        cells_monitorNode_detected cells_monitorNode_lastNotified trace_monitorNode)
qed

theorem recovery_notifies_once_and_clears_witness:
  "is_recovered (checkNodeHealth example_env ''https://fine.example'') \<and>
   db (checkNodeHealth example_env ''https://fine.example'') = ''up'' \<and>
   api (checkNodeHealth example_env ''https://fine.example'') = ''up'' \<and>
   truthy (getValue erring_row 4 LAST_NOTIFIED) \<and>
   getValue (monitorNode example_env erring_row 4 ''https://fine.example'') 4 STATUS = CStr RUNNING \<and>
   getValue (monitorNode example_env erring_row 4 ''https://fine.example'') 4 ERROR_TYPE = blank \<and>
   getValue (monitorNode example_env erring_row 4 ''https://fine.example'') 4 ERROR_DETECTED = blank \<and>
   getValue (monitorNode example_env erring_row 4 ''https://fine.example'') 4 LAST_NOTIFIED = blank \<and>
   trace (monitorNode example_env erring_row 4 ''https://fine.example'') =
     [Dispatch (Recovery (CStr ''https://down.example'')) [SendEmail ''ops@example.org'' True]] \<and>
   \<not> truthy (getValue unnotified_row 4 LAST_NOTIFIED) \<and>
   getValue (monitorNode example_env unnotified_row 4 ''https://fine.example'') 4 STATUS = CStr RUNNING \<and>
   trace (monitorNode example_env unnotified_row 4 ''https://fine.example'') = []"
proof -
  note rec = example_outcomes(6)
  note A = recovery_notifies_once_and_clears[OF rec, where w = erring_row and r = 4]
  note B = recovery_notifies_once_and_clears[OF rec, where w = unnotified_row and r = 4]
  have up: "db (checkNodeHealth example_env ''https://fine.example'') = ''up''"
    "api (checkNodeHealth example_env ''https://fine.example'') = ''up''"
    using rec by (simp_all add: is_recovered_def)
  have t: "truthy (getValue erring_row 4 LAST_NOTIFIED)"
    "\<not> truthy (getValue unnotified_row 4 LAST_NOTIFIED)"
    by (simp_all add: erring_row_cells) (simp add: unnotified_row_def getValue_def)
  have tr: "trace erring_row = []" "trace unnotified_row = []"
    by (simp_all add: unnotified_row_def erring_row_def empty_sheet_def)
  have calls: "notifierCalls example_env 0 = [SendEmail ''ops@example.org'' True]"
    by (simp add: notifierCalls_def checkSlackConfiguration_def sendSlackNotification_def
        sendEmail_def operatorEmail_def example_env_def Let_def)
  from A t tr calls
  have 1: "trace (monitorNode example_env erring_row 4 ''https://fine.example'') =
     [Dispatch (Recovery (CStr ''https://down.example'')) [SendEmail ''ops@example.org'' True]]"
    by (simp add: erring_row_cells)
  from B t tr
  have 2: "trace (monitorNode example_env unnotified_row 4 ''https://fine.example'') = []"
    by simp
  from A B rec up t 1 2 show ?thesis by simp
qed

section \<open>Properties of the chain height\<close>

text \<open>
  C9, as the code has it. \<open>getChainHeight\<close> yields a height exactly when the chain-info
  call answers 200 and \<open>parseInt\<close> reads a number off the height field; the number may be
  negative. After a healthy answer of the health endpoint the height cell of the row
  holds that number, and when the chain-info call yields none (another status code, a
  thrown error, a field that does not parse) the cell keeps the value it had. What the
  chain-info endpoint answers has no effect on the health result, on any cell other than
  the height cell of the probed row, or on the notifications sent.
\<close>

theorem chain_height_attached_when_parsed:
  "(height (getChainHeight e u) = Some h) =
     (\<exists>s. chainEndpoint e u = ChainResponse 200 (ChainHeightField s) \<and> parseInt s = Some h) \<and>
   (is_healthy (checkNodeHealth e u) \<longrightarrow>
      getValue (monitorNode e w r u) r BLOCK_HEIGHT =
        (case height (getChainHeight e u) of
           None \<Rightarrow> getValue w r BLOCK_HEIGHT
         | Some h' \<Rightarrow> CNum h')) \<and>
   checkNodeHealth (e\<lparr>chainEndpoint := f\<rparr>) u = checkNodeHealth e u \<and>
   (\<forall>r' c. (r', c) \<noteq> (r, BLOCK_HEIGHT) \<longrightarrow>
      getValue (monitorNode (e\<lparr>chainEndpoint := f\<rparr>) w r u) r' c
        = getValue (monitorNode e w r u) r' c) \<and>
   trace (monitorNode (e\<lparr>chainEndpoint := f\<rparr>) w r u) = trace (monitorNode e w r u)"
proof (intro conjI impI allI)
  show "(height (getChainHeight e u) = Some h) =
     (\<exists>s. chainEndpoint e u = ChainResponse 200 (ChainHeightField s) \<and> parseInt s = Some h)"
    by (simp add: getChainHeight_def height_getChainHeight_of)
next
  assume "is_healthy (checkNodeHealth e u)"
  then have "\<not> timeout (checkNodeHealth e u)" "\<not> sslError (checkNodeHealth e u)"
    "\<not> is_transport_error (checkNodeHealth e u)"
    by (simp_all add: is_healthy_def is_transport_error_def)
  then show "getValue (monitorNode e w r u) r BLOCK_HEIGHT =
        (case height (getChainHeight e u) of
           None \<Rightarrow> getValue w r BLOCK_HEIGHT
         | Some h' \<Rightarrow> CNum h')"
    by (simp add: getValue_def cells_monitorNode_height split: option.splits)
next
  show "checkNodeHealth (e\<lparr>chainEndpoint := f\<rparr>) u = checkNodeHealth e u" by simp
next
  fix r' c assume "(r', c) \<noteq> (r, BLOCK_HEIGHT)"
  then show "getValue (monitorNode (e\<lparr>chainEndpoint := f\<rparr>) w r u) r' c
        = getValue (monitorNode e w r u) r' c"
    unfolding getValue_def by (rule cells_monitorNode_chain_independent)
next
  show "trace (monitorNode (e\<lparr>chainEndpoint := f\<rparr>) w r u) = trace (monitorNode e w r u)"
    by (rule trace_monitorNode_chain_independent)
qed

theorem chain_height_attached_when_parsed_witness:
  "height (getChainHeight example_env ''https://fine.example'') = Some 1000 \<and>
   is_healthy (checkNodeHealth example_env ''https://fine.example'') \<and>
   getValue (monitorNode example_env erring_row 4 ''https://fine.example'') 4 BLOCK_HEIGHT
     = CNum 1000 \<and>
   chainEndpoint chainless_env ''https://half.example''
     = ChainResponse 503 (ChainHeightField ''1000'') \<and>
   height (getChainHeight chainless_env ''https://half.example'') = None \<and>
   is_healthy (checkNodeHealth chainless_env ''https://half.example'') \<and>
   getValue erring_row 4 BLOCK_HEIGHT = CNum 500 \<and>
   getValue (monitorNode chainless_env erring_row 4 ''https://half.example'') 4 BLOCK_HEIGHT
     = CNum 500 \<and>
   checkNodeHealth chainless_env ''https://half.example''
     = checkNodeHealth example_env ''https://half.example'' \<and>
   (4, STATUS) \<noteq> (4, BLOCK_HEIGHT) \<and>
   getValue (monitorNode chainless_env erring_row 4 ''https://half.example'') 4 STATUS
     = getValue (monitorNode example_env erring_row 4 ''https://half.example'') 4 STATUS \<and>
   trace (monitorNode chainless_env erring_row 4 ''https://fine.example'')
     = trace (monitorNode example_env erring_row 4 ''https://fine.example'')"
proof -
  let ?g = "\<lambda>u. if u = ''https://half.example'' then ChainResponse 503 (ChainHeightField ''1000'')
      else if u = ''https://fine.example'' then ChainThrows ''Exception: Timeout''
      else ChainResponse 200 (ChainHeightField ''n/a'')"
  have ce: "chainless_env = example_env\<lparr>chainEndpoint := ?g\<rparr>" by (simp add: chainless_env_def)
  note A = chain_height_attached_when_parsed[where e = example_env and u = "''https://fine.example''" and h = 1000
      and w = erring_row and r = 4 and f = ?g]
  note B = chain_height_attached_when_parsed[where e = chainless_env and u = "''https://half.example''"
      and w = erring_row and r = 4]
  note C = chain_height_attached_when_parsed[where e = example_env and u = "''https://half.example''"
      and w = erring_row and r = 4 and f = ?g]
  have ep: "chainEndpoint example_env ''https://fine.example'' = ChainResponse 200 (ChainHeightField ''1000'')"
    "chainEndpoint chainless_env ''https://half.example'' = ChainResponse 503 (ChainHeightField ''1000'')"
    by (simp_all add: example_env_def chainless_env_def)
  have hl: "is_healthy (checkNodeHealth example_env ''https://fine.example'')"
    "is_healthy (checkNodeHealth example_env ''https://half.example'')"
    using example_outcomes by (simp_all add: is_recovered_def is_degraded_def)
  from C have same: "checkNodeHealth chainless_env ''https://half.example''
     = checkNodeHealth example_env ''https://half.example''"
    unfolding ce by blast
  with hl have hl': "is_healthy (checkNodeHealth chainless_env ''https://half.example'')" by simp
  from A ep have 1: "height (getChainHeight example_env ''https://fine.example'') = Some 1000"
    by (simp add: parseInt_examples)
  with A hl have 2: "getValue (monitorNode example_env erring_row 4 ''https://fine.example'') 4 BLOCK_HEIGHT
     = CNum 1000" by simp
  have 3: "height (getChainHeight chainless_env ''https://half.example'') = None"
    by (simp add: getChainHeight_def ep)
  with B hl' have 4: "getValue (monitorNode chainless_env erring_row 4 ''https://half.example'') 4 BLOCK_HEIGHT
     = CNum 500" by (simp add: erring_row_cells)
  have ne: "(4, STATUS) \<noteq> (4, BLOCK_HEIGHT)" by (simp add: COLUMN_MAPPING)
  with C have 5: "getValue (monitorNode chainless_env erring_row 4 ''https://half.example'') 4 STATUS
     = getValue (monitorNode example_env erring_row 4 ''https://half.example'') 4 STATUS"
    unfolding ce by blast
  from A have 6: "trace (monitorNode chainless_env erring_row 4 ''https://fine.example'')
     = trace (monitorNode example_env erring_row 4 ''https://fine.example'')"
    unfolding ce by blast
  from 1 hl 2 ep 3 hl' 4 same ne 5 6 show ?thesis by (simp add: erring_row_cells)
qed

text \<open>A height field \<open>-5\<close> in a 200 answer is not a non-negative integer, and yet the
  height \<open>-5\<close> is attached and stored.\<close>

theorem negative_chain_height_is_attached:
  "is_recovered (checkNodeHealth negative_env ''https://fine.example'') \<and>
   height (getChainHeight negative_env ''https://fine.example'') = Some (- 5) \<and>
   getValue (monitorNode negative_env fresh_row 4 ''https://fine.example'') 4 BLOCK_HEIGHT
     = CNum (- 5)"
proof -
  have h: "height (getChainHeight negative_env ''https://fine.example'') = Some (- 5)"
    by (simp add: getChainHeight_def negative_env_def parseInt_examples)
  have r: "is_recovered (checkNodeHealth negative_env ''https://fine.example'')"
    using example_outcomes(6) by (simp add: negative_env_def)
  then have n: "\<not> timeout (checkNodeHealth negative_env ''https://fine.example'')"
    "\<not> sslError (checkNodeHealth negative_env ''https://fine.example'')"
    "\<not> is_transport_error (checkNodeHealth negative_env ''https://fine.example'')"
    by (auto simp: is_recovered_def is_healthy_def is_transport_error_def)
  from h r n show ?thesis by (simp add: getValue_def cells_monitorNode_height)
qed

section \<open>Height zero\<close>

text \<open>
  C10. A stored height 0 is treated by the detector exactly like a blank height cell:
  the maximum is the same, and the detector run on the sheet with 0 in the cell gives the
  sheet that the run with a blank cell gives, but for that cell. So a row at height 0
  contributes nothing to the maximum (leaving the row out of the list gives the same
  maximum) and no cell of it is written, however far 0 lies below the maximum; the
  latter holds for the detector of \<open>src/Code.js\<close> as well.
\<close>

theorem height_zero_counts_as_missing:
  "maxHeightOf (setValue w r BLOCK_HEIGHT (CNum 0)) nodes
     = maxHeightOf (setValue w r BLOCK_HEIGHT blank) nodes \<and>
   checkBlockDelay e (setValue w r BLOCK_HEIGHT (CNum 0)) nodes
     = setValue (checkBlockDelay e (setValue w r BLOCK_HEIGHT blank) nodes) r BLOCK_HEIGHT (CNum 0) \<and>
   (getValue w r BLOCK_HEIGHT = CNum 0 \<longrightarrow>
      maxHeightOf w nodes = maxHeightOf w (filter (\<lambda>n. row n \<noteq> r) nodes) \<and>
      (\<forall>c. getValue (checkBlockDelay e w nodes) r c = getValue w r c) \<and>
      (\<forall>c. getValue (checkBlockDelay_Code e w nodes) r c = getValue w r c))"
  by (simp add: maxHeight_fold_falsy checkBlockDelay_falsy_height maxHeightOf_skip
      getValue_def checkBlockDelay_falsy_height_row checkBlockDelay_Code_falsy_height_row)

theorem height_zero_counts_as_missing_witness:
  "getValue zero_fleet 7 BLOCK_HEIGHT = CNum 0 \<and>
   maxHeightOf zero_fleet zero_nodes = CNum 1000 \<and>
   maxHeightOf zero_fleet zero_nodes = maxHeightOf zero_fleet fleet_nodes \<and>
   getValue zero_fleet 1 7 = CNum 50 \<and>
   getValue (checkBlockDelay example_env zero_fleet zero_nodes) 5 STATUS = CStr DELAY \<and>
   getValue (checkBlockDelay example_env zero_fleet zero_nodes) 7 STATUS = blank \<and>
   getValue (checkBlockDelay example_env zero_fleet zero_nodes) 7 ERROR_TYPE
     = getValue zero_fleet 7 ERROR_TYPE \<and>
   getValue (checkBlockDelay_Code example_env zero_fleet zero_nodes) 7 STATUS = blank"
proof -
  note T = height_zero_counts_as_missing[where w = zero_fleet and r = 7 and nodes = zero_nodes and e = example_env]
  have f: "filter (\<lambda>n. row n \<noteq> 7) zero_nodes = fleet_nodes"
    by (simp add: zero_nodes_def fleet_nodes_def)
  have m: "maxHeightOf zero_fleet zero_nodes = CNum 1000"
    by (rule zero_fleet_max)
  from T zero_fleet_cells(5) f
  have 1: "maxHeightOf zero_fleet zero_nodes = maxHeightOf zero_fleet fleet_nodes" by simp
  from T zero_fleet_cells(5)
  have 2: "\<forall>c. getValue (checkBlockDelay example_env zero_fleet zero_nodes) 7 c = getValue zero_fleet 7 c"
    "\<forall>c. getValue (checkBlockDelay_Code example_env zero_fleet zero_nodes) 7 c = getValue zero_fleet 7 c"
    by blast+
  from zero_fleet_cells m 1 2 zero_fleet_flags_row5 show ?thesis by simp
qed

end
